theory Spec2Isabelle
  imports Main "HOL-Library.AList"
begin

section \<open>Exceptions, users and software collections\<close>

text \<open>
  Every \<^verbatim>\<open>raise\<close> of the Python sources is a value: a function that can raise returns
  \<open>exn + 'a\<close>, with \<open>Inl\<close> for the exception. \<open>Raised\<close> stands for any exception of
  code outside \<^verbatim>\<open>forms.py\<close> (the model methods, the build proxy, the file system).
\<close>

datatype exn =
    KeyError
  | IndexError
  | ValueError
  | DoesNotExist
  | MultipleObjectsReturned
  | DatabaseError
  | Raised string

text \<open>A row of \<^verbatim>\<open>auth.user\<close>; \<^verbatim>\<open>get_username()\<close> returns the \<open>username\<close> column.\<close>

record auth_user =
  user_id :: nat
  username :: string

definition get_username :: "auth_user \<Rightarrow> string" where
  "get_username u = username u"

text \<open>
  A \<^verbatim>\<open>SoftwareCollection\<close> instance, with the columns that \<^verbatim>\<open>forms.py\<close> reads or
  writes (the names are those of the frozen model \<^verbatim>\<open>scls.softwarecollection\<close>).
\<close>

record scl =
  slug :: string
  name :: string
  title :: string
  description :: string
  instructions :: string
  policy :: string
  copr_username :: string
  copr_name :: string
  auto_sync :: bool
  maintainer :: auth_user

section \<open>Requests and forms\<close>

record http_request =
  REQUEST :: "string \<rightharpoonup> string"
  user :: auth_user

datatype pyval = Str string | UserRef auth_user

text \<open>
  The state of a \<^verbatim>\<open>forms.ModelForm\<close> that the sources touch: the bound instance, the
  \<^verbatim>\<open>initial\<close> dictionary, \<^verbatim>\<open>cleaned_data\<close> (its type depends on the form class),
  the field-keyed \<^verbatim>\<open>errors\<close> (an association list, since the forms test it
  for emptiness), and per field name the widget's \<^verbatim>\<open>choices\<close> and \<^verbatim>\<open>attrs\<close>.
\<close>

record 'cd form =
  form_instance :: scl
  initial :: "string \<rightharpoonup> pyval"
  cleaned_data :: 'cd
  errors :: "(string \<times> string list) list"
  widget_choices :: "string \<Rightarrow> (string \<times> string) list"
  widget_attrs :: "string \<Rightarrow> (string \<rightharpoonup> string)"

text \<open>\<^verbatim>\<open>CreateForm\<close> and \<^verbatim>\<open>UpdateForm\<close> also keep the request.\<close>

record 'cd request_form = "'cd form" +
  request :: http_request

text \<open>\<^verbatim>\<open>cleaned_data\<close> of a \<^verbatim>\<open>CreateForm\<close>: one entry per name of \<^verbatim>\<open>Meta.fields\<close>.\<close>

record create_cleaned =
  cc_copr_username :: string
  cc_copr_name :: string
  cc_maintainer :: auth_user
  cc_name :: string
  cc_policy :: string

text \<open>\<^verbatim>\<open>cleaned_data\<close> of an \<^verbatim>\<open>UpdateForm\<close>: \<^verbatim>\<open>Meta.fields\<close> and the declared \<^verbatim>\<open>tags\<close>.\<close>

record update_cleaned =
  uc_title :: string
  uc_description :: string
  uc_instructions :: string
  uc_policy :: string
  uc_copr_username :: string
  uc_copr_name :: string
  uc_auto_sync :: bool
  uc_tags :: string

text \<open>
  \<^verbatim>\<open>cleaned_data\<close> of a \<^verbatim>\<open>CollaboratorsForm\<close> while \<^verbatim>\<open>clean\<close> runs. \<^verbatim>\<open>clean\<close> runs
  also when a field failed its own validation, and then the field's key is absent:
  \<open>None\<close> is the absent key.
\<close>

record collaborators_cleaned =
  kc_collaborators :: "auth_user list option"
  kc_add :: "string option"

section \<open>The world outside \<^verbatim>\<open>forms.py\<close>\<close>

text \<open>
  Calls that leave \<^verbatim>\<open>forms.py\<close> and can change the world are recorded, in order, in a
  list of \<open>call\<close>s kept beside the world \<open>'w\<close> itself.
\<close>

datatype call =
    Coprnames string
  | SyncCoprTexts
  | Makedirs string
  | ModelSave
  | SyncCoprRepos
  | AddAutoTags
  | CollaboratorsAdd auth_user
  | SetTags string

type_synonym 'w state = "call list \<times> 'w"

text \<open>
  The code called by the forms and not part of \<^verbatim>\<open>forms.py\<close> is a parameter: the model
  methods of \<^verbatim>\<open>SoftwareCollection\<close>, \<^verbatim>\<open>CoprProxy().coprnames\<close>, \<^verbatim>\<open>os.makedirs\<close>, the
  query of \<^verbatim>\<open>CreateForm.__init__\<close> and \<^verbatim>\<open>pretty_name\<close>. An operation takes the world and
  raises or returns its result with the new world; a method of the instance may also
  change the instance, so it returns the instance. A query only reads the world.
  \<open>maintained_by\<close> is
  \<^verbatim>\<open>SoftwareCollection.objects.filter(maintainer=user).order_by('-id')\<close>, evaluated.
\<close>

record 'w env =
  coprnames :: "string \<Rightarrow> 'w \<Rightarrow> exn + (string list \<times> 'w)"
  maintained_by :: "auth_user \<Rightarrow> 'w \<Rightarrow> exn + scl list"
  pretty_name :: "string \<Rightarrow> string"
  sync_copr_texts :: "scl \<Rightarrow> 'w \<Rightarrow> exn + (scl \<times> 'w)"
  get_repos_root :: "scl \<Rightarrow> 'w \<Rightarrow> exn + string"
  makedirs :: "string \<Rightarrow> 'w \<Rightarrow> exn + (unit \<times> 'w)"
  model_save :: "scl \<Rightarrow> 'w \<Rightarrow> exn + (scl \<times> 'w)"
  sync_copr_repos :: "scl \<Rightarrow> 'w \<Rightarrow> exn + (scl \<times> 'w)"
  add_auto_tags :: "scl \<Rightarrow> 'w \<Rightarrow> exn + (scl \<times> 'w)"
  collaborators_add :: "scl \<Rightarrow> auth_user \<Rightarrow> 'w \<Rightarrow> exn + (scl \<times> 'w)"
  set_tags :: "scl \<Rightarrow> string \<Rightarrow> 'w \<Rightarrow> exn + (scl \<times> 'w)"
  tags_edit_string :: "scl \<Rightarrow> 'w \<Rightarrow> exn + string"

text \<open>Sequencing: an exception ends the computation (nothing catches it).\<close>

definition bind :: "exn + ('a \<times> 's) \<Rightarrow> ('a \<Rightarrow> 's \<Rightarrow> exn + ('b \<times> 's)) \<Rightarrow> exn + ('b \<times> 's)" where
  "bind r f = (case r of Inl e \<Rightarrow> Inl e | Inr (x, s) \<Rightarrow> f x s)"

text \<open>Running an operation records the call; running a query does not.\<close>

definition invoke :: "call \<Rightarrow> ('w \<Rightarrow> exn + ('a \<times> 'w)) \<Rightarrow> 'w state \<Rightarrow> exn + ('a \<times> 'w state)" where
  "invoke c h st =
     (case h (snd st) of Inl e \<Rightarrow> Inl e | Inr (x, w') \<Rightarrow> Inr (x, (fst st @ [c], w')))"

definition query :: "('w \<Rightarrow> exn + 'a) \<Rightarrow> 'w state \<Rightarrow> exn + ('a \<times> 'w state)" where
  "query q st = (case q (snd st) of Inl e \<Rightarrow> Inl e | Inr x \<Rightarrow> Inr (x, st))"

section \<open>\<^verbatim>\<open>CreateForm\<close>\<close>

definition CreateForm_Meta_fields :: "string list" where
  "CreateForm_Meta_fields = [''copr_username'', ''copr_name'', ''maintainer'', ''name'', ''policy'']"

text \<open>
  Lines 37 to 45 of \<^verbatim>\<open>__init__\<close>: the request's value if it has one, else the
  \<^verbatim>\<open>copr_username\<close> of the maintainer's latest collection; the bare \<^verbatim>\<open>except\<close> turns
  every failure of that lookup (no such collection, or the query raising) into the
  user's own name.
\<close>

definition CreateForm_copr_username :: "'w env \<Rightarrow> http_request \<Rightarrow> 'w \<Rightarrow> string" where
  "CreateForm_copr_username env req w =
     (case REQUEST req ''copr_username'' of
        Some v \<Rightarrow> v
      | None \<Rightarrow>
          (case (case maintained_by env (user req) w of
                   Inl e \<Rightarrow> Inl e
                 | Inr [] \<Rightarrow> Inl IndexError
                 | Inr (latest # _) \<Rightarrow> Inr (copr_username latest)) of
             Inr v \<Rightarrow> v
           | Inl _ \<Rightarrow> get_username (user req)))"

text \<open>
  \<^verbatim>\<open>CreateForm.__init__\<close>; \<open>self0\<close> is the form as
  \<^verbatim>\<open>super(CreateForm, self).__init__(**kwargs)\<close> leaves it.
\<close>

definition CreateForm_init ::
  "'w env \<Rightarrow> http_request \<Rightarrow> create_cleaned request_form \<Rightarrow> 'w state
     \<Rightarrow> exn + (create_cleaned request_form \<times> 'w state)" where
  "CreateForm_init env req self0 st =
     (let self = self0\<lparr>request := req\<rparr>;
          copr_username = CreateForm_copr_username env (request self) (snd st);
          self = self\<lparr>initial := (initial self)(''copr_username'' \<mapsto> Str copr_username)\<rparr>;
          self = self\<lparr>initial := (initial self)(''maintainer'' \<mapsto> UserRef (user (request self)))\<rparr>
      in bind (if copr_username \<noteq> []
               then invoke (Coprnames copr_username) (coprnames env copr_username) st
               else Inr ([], st))
           (\<lambda>coprnames st.
              let copr_name_choices = map (\<lambda>name. (name, name)) coprnames;
                  self = self\<lparr>widget_choices :=
                           (widget_choices self)(''copr_name'' := copr_name_choices)\<rparr>;
                  self = self\<lparr>widget_attrs :=
                           (widget_attrs self)(''copr_name'' :=
                              (widget_attrs self ''copr_name'')(''class'' \<mapsto> ''form-control''))\<rparr>
              in Inr (self, st)))"

text \<open>
  \<^verbatim>\<open>forms.ModelForm.save(commit)\<close> as \<^verbatim>\<open>CreateForm\<close> inherits it: a form with errors
  raises \<^verbatim>\<open>ValueError\<close>; else the instance takes the cleaned value of each name of
  \<^verbatim>\<open>Meta.fields\<close>, and is saved when \<open>commit\<close> holds (none of the names is a
  many-to-many relation, so nothing more is stored).
\<close>

definition CreateForm_construct_instance :: "create_cleaned request_form \<Rightarrow> scl" where
  "CreateForm_construct_instance self =
     (form_instance self)
       \<lparr>copr_username := cc_copr_username (cleaned_data self),
        copr_name := cc_copr_name (cleaned_data self),
        maintainer := cc_maintainer (cleaned_data self),
        name := cc_name (cleaned_data self),
        policy := cc_policy (cleaned_data self)\<rparr>"

definition CreateForm_super_save ::
  "'w env \<Rightarrow> bool \<Rightarrow> create_cleaned request_form \<Rightarrow> 'w state \<Rightarrow> exn + (scl \<times> 'w state)" where
  "CreateForm_super_save env commit self st =
     (if errors self \<noteq> [] then Inl ValueError
      else if commit
        then invoke ModelSave (model_save env (CreateForm_construct_instance self)) st
        else Inr (CreateForm_construct_instance self, st))"

text \<open>\<^verbatim>\<open>CreateForm.save\<close>, line by line.\<close>

definition CreateForm_save ::
  "'w env \<Rightarrow> bool \<Rightarrow> create_cleaned request_form \<Rightarrow> 'w state \<Rightarrow> exn + (scl \<times> 'w state)" where
  "CreateForm_save env commit self st =
     bind (CreateForm_super_save env False self st) (\<lambda>obj st.
       let obj = obj\<lparr>maintainer := user (request self)\<rparr>;
           obj = obj\<lparr>slug := username (maintainer obj) @ ''/'' @ name obj\<rparr>;
           obj = obj\<lparr>title := pretty_name env (name obj)\<rparr>
       in
     bind (invoke SyncCoprTexts (sync_copr_texts env obj) st) (\<lambda>obj st.
     bind (query (get_repos_root env obj) st) (\<lambda>repos_root st.
     bind (invoke (Makedirs repos_root) (makedirs env repos_root) st) (\<lambda>_ st.
     bind (invoke ModelSave (model_save env obj) st) (\<lambda>obj st.
     bind (invoke SyncCoprRepos (sync_copr_repos env obj) st) (\<lambda>obj st.
     bind (invoke AddAutoTags (add_auto_tags env obj) st) (\<lambda>obj st.
     bind (invoke (CollaboratorsAdd (maintainer obj))
             (collaborators_add env obj (maintainer obj)) st) (\<lambda>obj st.
     Inr (obj, st)))))))))"

text \<open>
  The instance as lines 57 to 60 of \<^verbatim>\<open>CreateForm.save\<close> leave it, for a form without
  errors: the cleaned fields, then the maintainer, the slug and the title assigned.
\<close>

definition CreateForm_assigned :: "'w env \<Rightarrow> create_cleaned request_form \<Rightarrow> scl" where
  "CreateForm_assigned env self =
     (CreateForm_construct_instance self)
       \<lparr>maintainer := user (request self),
        slug := username (user (request self)) @ ''/'' @ cc_name (cleaned_data self),
        title := pretty_name env (cc_name (cleaned_data self))\<rparr>"

text \<open>
  What a theorem about the instance returned has to ask of the model methods, whose code
  is not in \<^verbatim>\<open>forms.py\<close>: a method that returns leaves the slug, the name and the
  maintainer of the instance as they were.
\<close>

definition keeps_identity :: "(scl \<Rightarrow> 'w \<Rightarrow> exn + (scl \<times> 'w)) \<Rightarrow> bool" where
  "keeps_identity m \<longleftrightarrow>
     (\<forall>obj w obj' w'. m obj w = Inr (obj', w') \<longrightarrow>
        slug obj' = slug obj \<and> name obj' = name obj \<and> maintainer obj' = maintainer obj)"

definition methods_keep_identity :: "'w env \<Rightarrow> bool" where
  "methods_keep_identity env \<longleftrightarrow>
     keeps_identity (sync_copr_texts env) \<and> keeps_identity (model_save env) \<and>
     keeps_identity (sync_copr_repos env) \<and> keeps_identity (add_auto_tags env) \<and>
     (\<forall>u. keeps_identity (\<lambda>obj. collaborators_add env obj u))"

section \<open>\<^verbatim>\<open>UpdateForm\<close>\<close>

definition UpdateForm_Meta_fields :: "string list" where
  "UpdateForm_Meta_fields =
     [''title'', ''description'', ''instructions'', ''policy'', ''copr_username'',
      ''copr_name'', ''auto_sync'']"

text \<open>The form fields declared in the class body of \<^verbatim>\<open>UpdateForm\<close>.\<close>

definition UpdateForm_declared_fields :: "string list" where
  "UpdateForm_declared_fields = [''tags'']"

text \<open>
  \<^verbatim>\<open>UpdateForm.__init__\<close>; \<open>self0\<close> is the form as the superclass constructor leaves it.
\<close>

definition UpdateForm_init ::
  "'w env \<Rightarrow> http_request \<Rightarrow> update_cleaned request_form \<Rightarrow> 'w state
     \<Rightarrow> exn + (update_cleaned request_form \<times> 'w state)" where
  "UpdateForm_init env req self0 st =
     (let self = self0\<lparr>request := req\<rparr>;
          copr_username =
            (case REQUEST (request self) ''copr_username'' of
               Some v \<Rightarrow> v
             | None \<Rightarrow> copr_username (form_instance self))
      in bind (invoke (Coprnames copr_username) (coprnames env copr_username) st)
           (\<lambda>coprnames st.
              let copr_name_choices = map (\<lambda>name. (name, name)) coprnames;
                  self = self\<lparr>widget_choices :=
                           (widget_choices self)(''copr_name'' := copr_name_choices)\<rparr>
              in bind (query (tags_edit_string env (form_instance self)) st)
                   (\<lambda>tags st.
                      let self = self\<lparr>initial := (initial self)(''tags'' \<mapsto> Str tags)\<rparr>;
                          self = self\<lparr>initial :=
                                   (initial self)(''policy'' \<mapsto> Str (policy (form_instance self)))\<rparr>
                      in Inr (self, st))))"

text \<open>
  \<^verbatim>\<open>forms.ModelForm.save(commit)\<close> as \<^verbatim>\<open>UpdateForm\<close> inherits it (\<^verbatim>\<open>tags\<close> is not a
  model field and is not copied to the instance).
\<close>

definition UpdateForm_construct_instance :: "update_cleaned request_form \<Rightarrow> scl" where
  "UpdateForm_construct_instance self =
     (form_instance self)
       \<lparr>title := uc_title (cleaned_data self),
        description := uc_description (cleaned_data self),
        instructions := uc_instructions (cleaned_data self),
        policy := uc_policy (cleaned_data self),
        copr_username := uc_copr_username (cleaned_data self),
        copr_name := uc_copr_name (cleaned_data self),
        auto_sync := uc_auto_sync (cleaned_data self)\<rparr>"

definition UpdateForm_super_save ::
  "'w env \<Rightarrow> bool \<Rightarrow> update_cleaned request_form \<Rightarrow> 'w state \<Rightarrow> exn + (scl \<times> 'w state)" where
  "UpdateForm_super_save env commit self st =
     (if errors self \<noteq> [] then Inl ValueError
      else if commit
        then invoke ModelSave (model_save env (UpdateForm_construct_instance self)) st
        else Inr (UpdateForm_construct_instance self, st))"

text \<open>
  \<^verbatim>\<open>UpdateForm.save\<close>. Assigning \<^verbatim>\<open>obj.tags\<close> goes through the tagging descriptor of
  the model, an operation of the world.
\<close>

definition UpdateForm_save ::
  "'w env \<Rightarrow> bool \<Rightarrow> update_cleaned request_form \<Rightarrow> 'w state \<Rightarrow> exn + (scl \<times> 'w state)" where
  "UpdateForm_save env commit self st =
     bind (UpdateForm_super_save env commit self st) (\<lambda>obj st.
     bind (invoke (SetTags (uc_tags (cleaned_data self)))
             (set_tags env obj (uc_tags (cleaned_data self))) st) (\<lambda>obj st.
     bind (invoke SyncCoprRepos (sync_copr_repos env obj) st) (\<lambda>obj st.
     bind (invoke AddAutoTags (add_auto_tags env obj) st) (\<lambda>obj st.
     Inr (obj, st)))))"

section \<open>\<^verbatim>\<open>CollaboratorsForm.clean\<close>\<close>

text \<open>
  \<^verbatim>\<open>get_user_model().objects.get(username=add)\<close> over the rows of \<^verbatim>\<open>auth.user\<close>: the
  one matching row, or \<^verbatim>\<open>DoesNotExist\<close>, or \<^verbatim>\<open>MultipleObjectsReturned\<close>.
\<close>

definition objects_get :: "auth_user list \<Rightarrow> string \<Rightarrow> exn + auth_user" where
  "objects_get users uname =
     (case filter (\<lambda>u. username u = uname) users of
        [] \<Rightarrow> Inl DoesNotExist
      | [u] \<Rightarrow> Inr u
      | _ \<Rightarrow> Inl MultipleObjectsReturned)"

text \<open>\<^verbatim>\<open>self.cleaned_data['collaborators'].append(u)\<close>.\<close>

definition collaborators_append ::
  "auth_user \<Rightarrow> collaborators_cleaned form \<Rightarrow> exn + collaborators_cleaned form" where
  "collaborators_append u self =
     (case kc_collaborators (cleaned_data self) of
        None \<Rightarrow> Inl KeyError
      | Some cs \<Rightarrow>
          Inr (self\<lparr>cleaned_data := (cleaned_data self)\<lparr>kc_collaborators := Some (cs @ [u])\<rparr>\<rparr>))"

text \<open>
  \<^verbatim>\<open>CollaboratorsForm.clean\<close>. The superclass \<^verbatim>\<open>clean\<close> returns \<^verbatim>\<open>self.cleaned_data\<close>
  as the fields left it; the method returns \<^verbatim>\<open>self.cleaned_data\<close>, here the
  \<open>cleaned_data\<close> of the form returned. Reading an absent key raises \<^verbatim>\<open>KeyError\<close>;
  inside \<^verbatim>\<open>try\<close> every exception is caught by the bare \<^verbatim>\<open>except\<close>.
\<close>

definition CollaboratorsForm_clean ::
  "auth_user list \<Rightarrow> collaborators_cleaned form \<Rightarrow> exn + collaborators_cleaned form" where
  "CollaboratorsForm_clean users self =
     (case kc_collaborators (cleaned_data self) of
        None \<Rightarrow> Inl KeyError
      | Some collaborators \<Rightarrow>
     (let self = self\<lparr>cleaned_data :=
                   (cleaned_data self)\<lparr>kc_collaborators := Some collaborators\<rparr>\<rparr>
      in case kc_add (cleaned_data self) of
        None \<Rightarrow> Inl KeyError
      | Some add \<Rightarrow>
     (let self = self\<lparr>cleaned_data := (cleaned_data self)\<lparr>kc_add := None\<rparr>\<rparr>;
          self =
            (if add \<noteq> [] then
               (case (case objects_get users add of
                        Inl e \<Rightarrow> Inl e
                      | Inr u \<Rightarrow> collaborators_append u self) of
                  Inr self' \<Rightarrow> self'
                | Inl _ \<Rightarrow> self\<lparr>errors := AList.update ''add'' [''Unknown user''] (errors self)\<rparr>)
             else self)
      in collaborators_append (maintainer (form_instance self)) self)))"

section \<open>The migration \<^verbatim>\<open>0002_add_field_repo_slug\<close>\<close>

text \<open>
  A field instance as the migration builds it, \<^verbatim>\<open>self.gf(path)(max_length=.., default=..)\<close>:
  the class found by its dotted path, and the two keyword arguments.
\<close>

record model_field =
  field_class :: string
  max_length :: "nat option"
  field_default :: "string option"

definition gf :: "string \<Rightarrow> nat option \<Rightarrow> string option \<Rightarrow> model_field" where
  "gf path max_len dflt = \<lparr>field_class = path, max_length = max_len, field_default = dflt\<rparr>"

text \<open>
  The relational schema and its data. A column keeps the field class it was made from, its
  length and the default the schema holds for it; a table keeps its columns in order and
  its rows, each row giving the value (\<open>None\<close> is \<^verbatim>\<open>NULL\<close>) of every column.
\<close>

record column =
  col_type :: string
  col_max_length :: "nat option"
  col_default :: "string option"

record table =
  columns :: "(string \<times> column) list"
  rows :: "(string \<times> string option) list list"

type_synonym database = "string \<rightharpoonup> table"

definition schema :: "database \<Rightarrow> (string \<rightharpoonup> (string \<times> column) list)" where
  "schema db = (\<lambda>table_name. map_option columns (db table_name))"

text \<open>
  South's \<^verbatim>\<open>db.add_column(table_name, field_name, field, keep_default)\<close>: the table gets the
  column last; the field's default fills the column in the rows that exist; the schema
  keeps the default only with \<open>keep_default\<close>. The database refuses an unknown table and
  a column name the table has.
\<close>

definition add_column :: "string \<Rightarrow> string \<Rightarrow> model_field \<Rightarrow> bool \<Rightarrow> database \<Rightarrow> exn + database" where
  "add_column table_name column_name fld keep_default db =
     (case db table_name of
        None \<Rightarrow> Inl DatabaseError
      | Some t \<Rightarrow>
          if column_name \<in> set (map fst (columns t)) then Inl DatabaseError
          else Inr (db(table_name \<mapsto>
                 t\<lparr>columns := columns t @
                      [(column_name, \<lparr>col_type = field_class fld, col_max_length = max_length fld,
                               col_default = (if keep_default then field_default fld else None)\<rparr>)],
                   rows := map (\<lambda>r. r @ [(column_name, field_default fld)]) (rows t)\<rparr>)))"

text \<open>
  South's \<^verbatim>\<open>db.delete_column(table_name, column_name)\<close>: the column and its values go. The
  database refuses an unknown table and a column the table does not have.
\<close>

definition delete_column :: "string \<Rightarrow> string \<Rightarrow> database \<Rightarrow> exn + database" where
  "delete_column table_name column_name db =
     (case db table_name of
        None \<Rightarrow> Inl DatabaseError
      | Some t \<Rightarrow>
          if column_name \<notin> set (map fst (columns t)) then Inl DatabaseError
          else Inr (db(table_name \<mapsto>
                 t\<lparr>columns := filter (\<lambda>c. fst c \<noteq> column_name) (columns t),
                   rows := map (filter (\<lambda>v. fst v \<noteq> column_name)) (rows t)\<rparr>)))"

text \<open>\<^verbatim>\<open>Migration.forwards\<close> and \<^verbatim>\<open>Migration.backwards\<close>; neither uses \<open>orm\<close>.\<close>

definition forwards :: "'orm \<Rightarrow> database \<Rightarrow> exn + database" where
  "forwards orm db =
     add_column ''scls_repo'' ''slug''
       (gf ''django.db.models.fields.SlugField'' (Some 150) (Some '''')) False db"

definition backwards :: "'orm \<Rightarrow> database \<Rightarrow> exn + database" where
  "backwards orm db = delete_column ''scls_repo'' ''slug'' db"

text \<open>
  \<^verbatim>\<open>Migration.models\<close>, the frozen models: per model the \<^verbatim>\<open>Meta\<close> options and, per
  field, the triple of class path, positional arguments and keyword arguments, all as the
  strings of the source.
\<close>

datatype frozen_entry =
    MetaOptions "(string \<times> string) list"
  | FieldTriple string "string list" "(string \<times> string) list"

definition models :: "(string \<times> (string \<times> frozen_entry) list) list" where
  "models =
     [(''auth.group'',
        [(''Meta'', MetaOptions
            [(''object_name'', ''Group'')]),
         (''id'', FieldTriple ''django.db.models.fields.AutoField'' []
            [(''primary_key'', ''True'')]),
         (''name'', FieldTriple ''django.db.models.fields.CharField'' []
            [(''unique'', ''True''), (''max_length'', ''80'')]),
         (''permissions'', FieldTriple ''django.db.models.fields.related.ManyToManyField'' []
            [(''symmetrical'', ''False''), (''blank'', ''True''),
             (''to'', ''orm['auth.Permission']'')])]),
      (''auth.permission'',
        [(''Meta'', MetaOptions
            [(''object_name'', ''Permission''),
             (''unique_together'', ''(('content_type', 'codename'),)''),
             (''ordering'', ''('content_type__app_label', 'content_type__model', 'codename')'')]),
         (''codename'', FieldTriple ''django.db.models.fields.CharField'' []
            [(''max_length'', ''100'')]),
         (''content_type'', FieldTriple ''django.db.models.fields.related.ForeignKey'' []
            [(''to'', ''orm['contenttypes.ContentType']'')]),
         (''id'', FieldTriple ''django.db.models.fields.AutoField'' []
            [(''primary_key'', ''True'')]),
         (''name'', FieldTriple ''django.db.models.fields.CharField'' []
            [(''max_length'', ''50'')])]),
      (''auth.user'',
        [(''Meta'', MetaOptions
            [(''object_name'', ''User'')]),
         (''date_joined'', FieldTriple ''django.db.models.fields.DateTimeField'' []
            [(''default'', ''datetime.datetime.now'')]),
         (''email'', FieldTriple ''django.db.models.fields.EmailField'' []
            [(''max_length'', ''75''), (''blank'', ''True'')]),
         (''first_name'', FieldTriple ''django.db.models.fields.CharField'' []
            [(''max_length'', ''30''), (''blank'', ''True'')]),
         (''groups'', FieldTriple ''django.db.models.fields.related.ManyToManyField'' []
            [(''symmetrical'', ''False''), (''blank'', ''True''),
             (''related_name'', ('''user_set'' @ [CHR 0x27])), (''to'', ''orm['auth.Group']'')]),
         (''id'', FieldTriple ''django.db.models.fields.AutoField'' []
            [(''primary_key'', ''True'')]),
         (''is_active'', FieldTriple ''django.db.models.fields.BooleanField'' []
            [(''default'', ''True'')]),
         (''is_staff'', FieldTriple ''django.db.models.fields.BooleanField'' []
            [(''default'', ''False'')]),
         (''is_superuser'', FieldTriple ''django.db.models.fields.BooleanField'' []
            [(''default'', ''False'')]),
         (''last_login'', FieldTriple ''django.db.models.fields.DateTimeField'' []
            [(''default'', ''datetime.datetime.now'')]),
         (''last_name'', FieldTriple ''django.db.models.fields.CharField'' []
            [(''max_length'', ''30''), (''blank'', ''True'')]),
         (''password'', FieldTriple ''django.db.models.fields.CharField'' []
            [(''max_length'', ''128'')]),
         (''user_permissions'', FieldTriple ''django.db.models.fields.related.ManyToManyField'' []
            [(''symmetrical'', ''False''), (''blank'', ''True''),
             (''related_name'', ('''user_set'' @ [CHR 0x27])),
             (''to'', ''orm['auth.Permission']'')]),
         (''username'', FieldTriple ''django.db.models.fields.CharField'' []
            [(''unique'', ''True''), (''max_length'', ''30'')])]),
      (''contenttypes.contenttype'',
        [(''Meta'', MetaOptions
            [(''object_name'', ''ContentType''),
             (''unique_together'', ''(('app_label', 'model'),)''),
             (''ordering'', ''('name',)''),
             (''db_table'', ('''django_content_type'' @ [CHR 0x27]))]),
         (''app_label'', FieldTriple ''django.db.models.fields.CharField'' []
            [(''max_length'', ''100'')]),
         (''id'', FieldTriple ''django.db.models.fields.AutoField'' []
            [(''primary_key'', ''True'')]),
         (''model'', FieldTriple ''django.db.models.fields.CharField'' []
            [(''max_length'', ''100'')]),
         (''name'', FieldTriple ''django.db.models.fields.CharField'' []
            [(''max_length'', ''100'')])]),
      (''scls.repo'',
        [(''Meta'', MetaOptions
            [(''object_name'', ''Repo''), (''unique_together'', ''(('scl', 'name'),)'')]),
         (''auto_sync'', FieldTriple ''django.db.models.fields.BooleanField'' []
            [(''default'', ''True'')]),
         (''copr_url'', FieldTriple ''django.db.models.fields.CharField'' []
            [(''max_length'', ''200'')]),
         (''create_date'', FieldTriple ''django.db.models.fields.DateTimeField'' []
            [(''blank'', ''True''), (''auto_now_add'', ''True'')]),
         (''download_count'', FieldTriple ''django.db.models.fields.IntegerField'' []
            [(''default'', ''0'')]),
         (''enabled'', FieldTriple ''django.db.models.fields.BooleanField'' []
            [(''default'', ''True'')]),
         (''id'', FieldTriple ''django.db.models.fields.AutoField'' []
            [(''primary_key'', ''True'')]),
         (''last_sync_date'', FieldTriple ''django.db.models.fields.DateTimeField'' []
            [(''null'', ''True'')]),
         (''name'', FieldTriple ''django.db.models.fields.CharField'' []
            [(''max_length'', ''50'')]),
         (''need_sync'', FieldTriple ''django.db.models.fields.BooleanField'' []
            [(''default'', ''True'')]),
         (''scl'', FieldTriple ''django.db.models.fields.related.ForeignKey'' []
            [(''related_name'', ('''repos'' @ [CHR 0x27])),
             (''to'', ''orm['scls.SoftwareCollection']'')]),
         (''slug'', FieldTriple ''django.db.models.fields.SlugField'' []
            [(''max_length'', ''150'')])]),
      (''scls.score'',
        [(''Meta'', MetaOptions
            [(''object_name'', ''Score''), (''unique_together'', ''(('scl', 'user'),)'')]),
         (''id'', FieldTriple ''django.db.models.fields.AutoField'' []
            [(''primary_key'', ''True'')]),
         (''scl'', FieldTriple ''django.db.models.fields.related.ForeignKey'' []
            [(''related_name'', ('''scores'' @ [CHR 0x27])),
             (''to'', ''orm['scls.SoftwareCollection']'')]),
         (''score'', FieldTriple ''django.db.models.fields.SmallIntegerField'' []
            []),
         (''user'', FieldTriple ''django.db.models.fields.related.ForeignKey'' []
            [(''to'', ''orm['auth.User']'')])]),
      (''scls.softwarecollection'',
        [(''Meta'', MetaOptions
            [(''object_name'', ''SoftwareCollection''),
             (''unique_together'', ''(('maintainer', 'name'),)'')]),
         (''approval_req'', FieldTriple ''django.db.models.fields.BooleanField'' []
            [(''default'', ''False'')]),
         (''approved'', FieldTriple ''django.db.models.fields.BooleanField'' []
            [(''default'', ''False'')]),
         (''auto_sync'', FieldTriple ''django.db.models.fields.BooleanField'' []
            [(''default'', ''True'')]),
         (''collaborators'', FieldTriple ''django.db.models.fields.related.ManyToManyField'' []
            [(''symmetrical'', ''False''), (''blank'', ''True''),
             (''related_name'', ('''softwarecollection_set'' @ [CHR 0x27])),
             (''to'', ''orm['auth.User']'')]),
         (''copr_name'', FieldTriple ''django.db.models.fields.CharField'' []
            [(''max_length'', ''200'')]),
         (''copr_username'', FieldTriple ''django.db.models.fields.CharField'' []
            [(''max_length'', ''100'')]),
         (''create_date'', FieldTriple ''django.db.models.fields.DateTimeField'' []
            [(''blank'', ''True''), (''auto_now_add'', ''True'')]),
         (''description'', FieldTriple ''django.db.models.fields.TextField'' []
            []),
         (''download_count'', FieldTriple ''django.db.models.fields.IntegerField'' []
            [(''default'', ''0'')]),
         (''id'', FieldTriple ''django.db.models.fields.AutoField'' []
            [(''primary_key'', ''True'')]),
         (''instructions'', FieldTriple ''django.db.models.fields.TextField'' []
            []),
         (''last_sync_date'', FieldTriple ''django.db.models.fields.DateTimeField'' []
            [(''null'', ''True'')]),
         (''maintainer'', FieldTriple ''django.db.models.fields.related.ForeignKey'' []
            [(''related_name'', ('''maintained_softwarecollection_set'' @ [CHR 0x27])),
             (''to'', ''orm['auth.User']'')]),
         (''name'', FieldTriple ''django.db.models.fields.SlugField'' []
            [(''db_index'', ''False''), (''max_length'', ''100'')]),
         (''need_sync'', FieldTriple ''django.db.models.fields.BooleanField'' []
            [(''default'', ''True'')]),
         (''policy'', FieldTriple ''django.db.models.fields.TextField'' []
            []),
         (''score'', FieldTriple ''django.db.models.fields.SmallIntegerField'' []
            [(''null'', ''True'')]),
         (''score_count'', FieldTriple ''django.db.models.fields.IntegerField'' []
            [(''default'', ''0'')]),
         (''slug'', FieldTriple ''django.db.models.fields.SlugField'' []
            [(''max_length'', ''150'')]),
         (''title'', FieldTriple ''django.db.models.fields.CharField'' []
            [(''max_length'', ''200'')])])]"

text \<open>The field names of a frozen model, and an option of its \<^verbatim>\<open>Meta\<close> or of a field.\<close>

definition is_field :: "frozen_entry \<Rightarrow> bool" where
  "is_field e = (case e of FieldTriple _ _ _ \<Rightarrow> True | MetaOptions _ \<Rightarrow> False)"

definition frozen_fields :: "string \<Rightarrow> string list" where
  "frozen_fields model =
     (case map_of models model of
        None \<Rightarrow> []
      | Some entries \<Rightarrow> map fst (filter (\<lambda>e. is_field (snd e)) entries))"

definition frozen_option :: "string \<Rightarrow> string \<Rightarrow> string \<Rightarrow> string option" where
  "frozen_option model entry opt =
     (case map_of models model of
        None \<Rightarrow> None
      | Some entries \<Rightarrow>
          (case map_of entries entry of
             None \<Rightarrow> None
           | Some (MetaOptions kwargs) \<Rightarrow> map_of kwargs opt
           | Some (FieldTriple _ _ kwargs) \<Rightarrow> map_of kwargs opt))"

definition complete_apps :: "string list" where
  "complete_apps = [''scls'']"

section \<open>The fields of the form classes\<close>

text \<open>
  The fields of a \<^verbatim>\<open>ModelForm\<close> class: the model fields that \<^verbatim>\<open>Meta.fields\<close> names, in
  that order, then the fields declared in the class body.
\<close>

definition form_fields :: "string list \<Rightarrow> string list \<Rightarrow> string list" where
  "form_fields meta_fields declared = meta_fields @ filter (\<lambda>d. d \<notin> set meta_fields) declared"

definition CreateForm_fields :: "string list" where
  "CreateForm_fields = form_fields CreateForm_Meta_fields []"

definition UpdateForm_fields :: "string list" where
  "UpdateForm_fields = form_fields UpdateForm_Meta_fields UpdateForm_declared_fields"

section \<open>Example data\<close>

text \<open>Concrete users, a collection and forms, on which the theorems below are run.\<close>

definition alice :: auth_user where
  "alice = \<lparr>user_id = 1, username = ''alice''\<rparr>"

definition bob :: auth_user where
  "bob = \<lparr>user_id = 2, username = ''bob''\<rparr>"

definition example_scl :: scl where
  "example_scl =
     \<lparr>slug = ''alice/ruby193'', name = ''ruby193'', title = ''Ruby193'', description = [],
      instructions = [], policy = ''DEV'', copr_username = ''alice'', copr_name = ''ruby193'',
      auto_sync = True, maintainer = alice\<rparr>"

text \<open>
  A \<^verbatim>\<open>CollaboratorsForm\<close> of Alice's collection, posted with Bob ticked and \<open>add\<close>
  typed into the \<^verbatim>\<open>add\<close> box.
\<close>

definition example_collaborators_form :: "string \<Rightarrow> collaborators_cleaned form" where
  "example_collaborators_form add =
     \<lparr>form_instance = example_scl, initial = Map.empty,
      cleaned_data = \<lparr>kc_collaborators = Some [bob], kc_add = Some add\<rparr>,
      errors = [], widget_choices = (\<lambda>_. []), widget_attrs = (\<lambda>_. Map.empty)\<rparr>"

text \<open>
  The same form posted with \<^verbatim>\<open>collaborators=['999']\<close>, the id of no user: the field
  \<^verbatim>\<open>collaborators\<close> failed its validation, which left its message in \<^verbatim>\<open>errors\<close> and no
  key \<^verbatim>\<open>collaborators\<close> in \<^verbatim>\<open>cleaned_data\<close>; the field \<^verbatim>\<open>add\<close> cleaned to \<open>add\<close>.
\<close>

definition example_invalid_collaborators_form :: "string \<Rightarrow> collaborators_cleaned form" where
  "example_invalid_collaborators_form add =
     \<lparr>form_instance = example_scl, initial = Map.empty,
      cleaned_data = \<lparr>kc_collaborators = None, kc_add = Some add\<rparr>,
      errors = [(''collaborators'',
                 [''Select a valid choice. 999 is not one of the available choices.''])],
      widget_choices = (\<lambda>_. []), widget_attrs = (\<lambda>_. Map.empty)\<rparr>"

text \<open>
  A world that is the list of the directories made so far. The build service knows the
  user \<^verbatim>\<open>alice\<close> only; \<^verbatim>\<open>os.makedirs\<close> refuses a directory that exists; the model methods
  return.
\<close>

definition example_env :: "string list env" where
  "example_env =
     \<lparr>coprnames = (\<lambda>u w. if u = ''alice'' then Inr ([''ruby193'', ''python33''], w)
                          else Inl (Raised ''copr: no such user'')),
      maintained_by = (\<lambda>u w. Inr []),
      pretty_name = (\<lambda>s. s),
      sync_copr_texts = (\<lambda>obj w. Inr (obj\<lparr>description := ''Ruby 1.9.3''\<rparr>, w)),
      get_repos_root = (\<lambda>obj w. Inr (''/repos/'' @ slug obj)),
      makedirs = (\<lambda>p w. if p \<in> set w then Inl (Raised ''OSError: file exists'')
                         else Inr ((), w @ [p])),
      model_save = (\<lambda>obj w. Inr (obj, w)),
      sync_copr_repos = (\<lambda>obj w. Inr (obj, w)),
      add_auto_tags = (\<lambda>obj w. Inr (obj, w)),
      collaborators_add = (\<lambda>obj u w. Inr (obj, w)),
      set_tags = (\<lambda>obj tags w. Inr (obj, w)),
      tags_edit_string = (\<lambda>obj w. Inr ''ruby'')\<rparr>"

definition example_request :: http_request where
  "example_request = \<lparr>REQUEST = Map.empty, user = alice\<rparr>"

definition blank_scl :: scl where
  "blank_scl =
     \<lparr>slug = [], name = [], title = [], description = [], instructions = [], policy = [],
      copr_username = [], copr_name = [], auto_sync = True, maintainer = bob\<rparr>"

text \<open>
  A valid \<^verbatim>\<open>CreateForm\<close> posted by Alice (its hidden \<^verbatim>\<open>maintainer\<close> field names Bob), and
  the collection that saving it returns.
\<close>

definition example_create_form :: "create_cleaned request_form" where
  "example_create_form =
     \<lparr>form_instance = blank_scl, initial = Map.empty,
      cleaned_data = \<lparr>cc_copr_username = ''alice'', cc_copr_name = ''ruby193'',
                      cc_maintainer = bob, cc_name = ''ruby193'', cc_policy = ''DEV''\<rparr>,
      errors = [], widget_choices = (\<lambda>_. []), widget_attrs = (\<lambda>_. Map.empty),
      request = example_request\<rparr>"

definition example_created :: scl where
  "example_created =
     \<lparr>slug = ''alice/ruby193'', name = ''ruby193'', title = ''ruby193'',
      description = ''Ruby 1.9.3'', instructions = [], policy = ''DEV'',
      copr_username = ''alice'', copr_name = ''ruby193'', auto_sync = True, maintainer = alice\<rparr>"

text \<open>A valid \<^verbatim>\<open>UpdateForm\<close> of Alice's collection, and the collection that saving it returns.\<close>

definition example_update_form :: "update_cleaned request_form" where
  "example_update_form =
     \<lparr>form_instance = example_scl, initial = Map.empty,
      cleaned_data = \<lparr>uc_title = ''Ruby 1.9.3'', uc_description = ''Ruby'', uc_instructions = ''yum'',
                      uc_policy = ''DEV'', uc_copr_username = ''alice'', uc_copr_name = ''ruby193'',
                      uc_auto_sync = False, uc_tags = ''ruby''\<rparr>,
      errors = [], widget_choices = (\<lambda>_. []), widget_attrs = (\<lambda>_. Map.empty),
      request = example_request\<rparr>"

definition example_updated :: scl where
  "example_updated =
     \<lparr>slug = ''alice/ruby193'', name = ''ruby193'', title = ''Ruby 1.9.3'',
      description = ''Ruby'', instructions = ''yum'', policy = ''DEV'',
      copr_username = ''alice'', copr_name = ''ruby193'', auto_sync = False, maintainer = alice\<rparr>"

text \<open>A database as migration 0001 leaves it (two of the columns of \<^verbatim>\<open>scls_repo\<close>), with two rows.\<close>

definition example_repo_table :: table where
  "example_repo_table =
     \<lparr>columns =
        [(''id'', \<lparr>col_type = ''django.db.models.fields.AutoField'', col_max_length = None,
                   col_default = None\<rparr>),
         (''name'', \<lparr>col_type = ''django.db.models.fields.CharField'',
                     col_max_length = Some 50, col_default = None\<rparr>)],
      rows = [[(''id'', Some ''1''), (''name'', Some ''epel-6-x86_64'')],
              [(''id'', Some ''2''), (''name'', Some ''fedora-19-x86_64'')]]\<rparr>"

definition example_db :: database where
  "example_db = [''scls_repo'' \<mapsto> example_repo_table]"

section \<open>Properties of \<^verbatim>\<open>CollaboratorsForm.clean\<close>\<close>

lemma objects_get_unknown:
  "(\<forall>u \<in> set users. username u \<noteq> add) \<Longrightarrow> objects_get users add = Inl DoesNotExist"
  by (simp add: objects_get_def filter_empty_conv[THEN iffD2])

lemma filter_distinct_key:
  "distinct (map f xs) \<Longrightarrow> x \<in> set xs \<Longrightarrow> filter (\<lambda>y. f y = f x) xs = [x]"
proof (induction xs)
  case Nil
  then show ?case by simp
next
  case (Cons a xs)
  show ?case
  proof (cases "a = x")
    case True
    with Cons.prems have "\<forall>y \<in> set xs. f y \<noteq> f x"
      by (auto simp: image_iff)
    then have "filter (\<lambda>y. f y = f x) xs = []"
      by (simp add: filter_empty_conv)
    with True show ?thesis by simp
  next
    case False
    with Cons.prems have "x \<in> set xs" "f a \<noteq> f x" by auto
    with Cons show ?thesis by simp
  qed
qed

lemma objects_get_known:
  "distinct (map username users) \<Longrightarrow> u \<in> set users \<Longrightarrow> objects_get users (username u) = Inr u"
  by (simp add: objects_get_def filter_distinct_key)

text \<open>
  \<^verbatim>\<open>clean\<close> raises \<^verbatim>\<open>KeyError\<close> at line 139 when the \<^verbatim>\<open>collaborators\<close> field failed
  its own validation (its key is then absent from \<^verbatim>\<open>cleaned_data\<close>).
\<close>

lemma CollaboratorsForm_clean_KeyError:
  "kc_collaborators (cleaned_data self) = None \<Longrightarrow>
   CollaboratorsForm_clean users self = Inl KeyError"
  by (simp add: CollaboratorsForm_clean_def)

text \<open>
  What \<^verbatim>\<open>clean\<close> does with the \<^verbatim>\<open>add\<close> field once both fields validated. Let the fields
  of a \<^verbatim>\<open>CollaboratorsForm\<close> have put the submitted collaborators \<open>cs\<close> and a non-empty
  \<open>add\<close> into \<^verbatim>\<open>cleaned_data\<close>. If no row of \<^verbatim>\<open>auth.user\<close> has the username \<open>add\<close>,
  \<^verbatim>\<open>clean\<close> returns and has recorded the error list \<^verbatim>\<open>['Unknown user']\<close> under the key
  \<^verbatim>\<open>add\<close>. If \<open>add\<close> is the username of a row \<open>u\<close> (usernames being unique, as the
  column is declared), \<^verbatim>\<open>clean\<close> returns, leaves the errors as they were, and the
  cleaned collaborators are the submitted ones, then \<open>u\<close>, then the maintainer.
\<close>

lemma CollaboratorsForm_clean_add_validated:
  assumes cs: "kc_collaborators (cleaned_data self) = Some cs"
      and add: "kc_add (cleaned_data self) = Some add"
      and nonempty: "add \<noteq> []"
  shows "((\<forall>u \<in> set users. username u \<noteq> add) \<longrightarrow>
            (\<exists>self'. CollaboratorsForm_clean users self = Inr self' \<and>
               map_of (errors self') ''add'' = Some [''Unknown user''])) \<and>
         (\<forall>u. u \<in> set users \<and> username u = add \<and> distinct (map username users) \<longrightarrow>
            (\<exists>self'. CollaboratorsForm_clean users self = Inr self' \<and>
               errors self' = errors self \<and>
               kc_collaborators (cleaned_data self') =
                 Some (cs @ [u, maintainer (form_instance self)])))"
proof (intro conjI allI impI)
  assume "\<forall>u \<in> set users. username u \<noteq> add"
  then have "objects_get users add = Inl DoesNotExist"
    by (rule objects_get_unknown)
  with cs add nonempty
  show "\<exists>self'. CollaboratorsForm_clean users self = Inr self' \<and>
          map_of (errors self') ''add'' = Some [''Unknown user'']"
    by (simp add: CollaboratorsForm_clean_def collaborators_append_def Let_def update_conv')
next
  fix u
  assume "u \<in> set users \<and> username u = add \<and> distinct (map username users)"
  then have "objects_get users add = Inr u"
    using objects_get_known by blast
  with cs add nonempty
  show "\<exists>self'. CollaboratorsForm_clean users self = Inr self' \<and>
          errors self' = errors self \<and>
          kc_collaborators (cleaned_data self') =
            Some (cs @ [u, maintainer (form_instance self)])"
    by (simp add: CollaboratorsForm_clean_def collaborators_append_def Let_def)
qed

lemma CollaboratorsForm_clean_add_validated_example:
  "(\<exists>self'. CollaboratorsForm_clean [alice, bob] (example_collaborators_form ''carol'') = Inr self' \<and>
      map_of (errors self') ''add'' = Some [''Unknown user'']) \<and>
   (\<exists>self'. CollaboratorsForm_clean [alice, bob] (example_collaborators_form ''alice'') = Inr self' \<and>
      errors self' = errors (example_collaborators_form ''alice'') \<and>
      kc_collaborators (cleaned_data self') = Some [bob, alice, alice])"
proof
  have "\<forall>u \<in> set [alice, bob]. username u \<noteq> ''carol''"
    by (simp add: alice_def bob_def)
  then show "\<exists>self'. CollaboratorsForm_clean [alice, bob] (example_collaborators_form ''carol'') = Inr self' \<and>
      map_of (errors self') ''add'' = Some [''Unknown user'']"
    using CollaboratorsForm_clean_add_validated
      [of "example_collaborators_form ''carol''" "[bob]" "''carol''" "[alice, bob]"]
    by (simp add: example_collaborators_form_def)
next
  have "alice \<in> set [alice, bob] \<and> username alice = ''alice'' \<and>
        distinct (map username [alice, bob])"
    by (simp add: alice_def bob_def)
  then show "\<exists>self'. CollaboratorsForm_clean [alice, bob] (example_collaborators_form ''alice'') = Inr self' \<and>
      errors self' = errors (example_collaborators_form ''alice'') \<and>
      kc_collaborators (cleaned_data self') = Some [bob, alice, alice]"
    using CollaboratorsForm_clean_add_validated
      [of "example_collaborators_form ''alice''" "[bob]" "''alice''" "[alice, bob]"]
    by (auto simp add: example_collaborators_form_def example_scl_def)
qed

text \<open>
  Claim C2 says that \<^verbatim>\<open>clean\<close> records the error list \<^verbatim>\<open>['Unknown user']\<close> under \<^verbatim>\<open>add\<close>
  for every input whose \<^verbatim>\<open>add\<close> field is a non-empty username of no user. The code breaks
  it where the \<^verbatim>\<open>collaborators\<close> field did not validate: on the form posted with
  \<^verbatim>\<open>collaborators=['999']\<close> and \<^verbatim>\<open>add=carol\<close>, where no user is named \<^verbatim>\<open>carol\<close>, the
  unguarded \<^verbatim>\<open>self.cleaned_data['collaborators']\<close> of line 139 raises \<^verbatim>\<open>KeyError\<close> before
  \<^verbatim>\<open>add\<close> is read: \<^verbatim>\<open>clean\<close> returns no form and no error is recorded under \<^verbatim>\<open>add\<close>.
\<close>

theorem CollaboratorsForm_clean_add_raises:
  "kc_add (cleaned_data (example_invalid_collaborators_form ''carol'')) = Some ''carol'' \<and>
   ''carol'' \<notin> set (map username [alice, bob]) \<and>
   map_of (errors (example_invalid_collaborators_form ''carol'')) ''add'' = None \<and>
   CollaboratorsForm_clean [alice, bob] (example_invalid_collaborators_form ''carol'') =
     Inl KeyError"
  by (simp add: CollaboratorsForm_clean_def example_invalid_collaborators_form_def
        alice_def bob_def)

text \<open>
  What \<^verbatim>\<open>clean\<close> does with the maintainer. Whenever \<^verbatim>\<open>clean\<close> returns, the maintainer of
  the form's instance is among the cleaned collaborators, whatever was submitted and
  whatever the \<^verbatim>\<open>add\<close> field held (empty, a known user, or an unknown one); and \<^verbatim>\<open>clean\<close>
  does return whenever the two fields of the form left their keys in \<^verbatim>\<open>cleaned_data\<close>.
\<close>

lemma CollaboratorsForm_clean_maintainer_returned:
  "(kc_collaborators (cleaned_data self) \<noteq> None \<and> kc_add (cleaned_data self) \<noteq> None \<longrightarrow>
      (\<exists>self'. CollaboratorsForm_clean users self = Inr self')) \<and>
   (\<forall>self'. CollaboratorsForm_clean users self = Inr self' \<longrightarrow>
      (\<exists>cs. kc_collaborators (cleaned_data self') = Some cs \<and>
            maintainer (form_instance self') \<in> set cs \<and>
            form_instance self' = form_instance self))"
  by (auto simp: CollaboratorsForm_clean_def collaborators_append_def Let_def
           split: sum.splits option.splits if_splits)

lemma CollaboratorsForm_clean_maintainer_returned_example:
  "\<exists>self'. CollaboratorsForm_clean [alice, bob] (example_collaborators_form ''carol'') = Inr self' \<and>
     (\<exists>cs. kc_collaborators (cleaned_data self') = Some cs \<and>
        maintainer (form_instance self') \<in> set cs)"
proof -
  have "kc_collaborators (cleaned_data (example_collaborators_form ''carol'')) \<noteq> None \<and>
        kc_add (cleaned_data (example_collaborators_form ''carol'')) \<noteq> None"
    by (simp add: example_collaborators_form_def)
  then show ?thesis
    using CollaboratorsForm_clean_maintainer_returned
      [of "example_collaborators_form ''carol''" "[alice, bob]"]
    by blast
qed

text \<open>
  Claim C8 says that after \<^verbatim>\<open>clean\<close> the maintainer of the instance is among the cleaned
  collaborators for every input. The code appends the maintainer on every path (line
  148) and breaks the claim where the \<^verbatim>\<open>collaborators\<close> field did not validate: on the
  form posted with \<^verbatim>\<open>collaborators=['999']\<close> and an empty \<^verbatim>\<open>add\<close>, line 139 raises
  \<^verbatim>\<open>KeyError\<close>, and there is no cleaned list for Alice, the maintainer, to be in.
\<close>

theorem CollaboratorsForm_clean_maintainer_raises:
  "maintainer (form_instance (example_invalid_collaborators_form [])) = alice \<and>
   CollaboratorsForm_clean [alice, bob] (example_invalid_collaborators_form []) = Inl KeyError \<and>
   (\<nexists>self'. CollaboratorsForm_clean [alice, bob] (example_invalid_collaborators_form []) =
              Inr self')"
  by (simp add: CollaboratorsForm_clean_def example_invalid_collaborators_form_def
        example_scl_def)

section \<open>Properties of the two \<^verbatim>\<open>save\<close> methods\<close>

lemmas example_defs = example_env_def example_request_def blank_scl_def example_create_form_def
  example_update_form_def example_created_def example_updated_def alice_def bob_def
  example_scl_def

lemma bind_Inr: "bind r f = Inr y \<longleftrightarrow> (\<exists>x s. r = Inr (x, s) \<and> f x s = Inr y)"
  by (auto simp: bind_def split: sum.splits)

lemma invoke_Inr:
  "invoke c h st = Inr (x, st') \<longleftrightarrow> (\<exists>w'. h (snd st) = Inr (x, w') \<and> st' = (fst st @ [c], w'))"
  by (auto simp: invoke_def split: sum.splits)

lemma query_Inr: "query q st = Inr (x, st') \<longleftrightarrow> q (snd st) = Inr x \<and> st' = st"
  by (auto simp: query_def split: sum.splits)

lemma CreateForm_super_save_False:
  "CreateForm_super_save env False self st = Inr (obj, st') \<longleftrightarrow>
     errors self = [] \<and> obj = CreateForm_construct_instance self \<and> st' = st"
  by (auto simp: CreateForm_super_save_def)

text \<open>A form with errors cannot be saved.\<close>

lemma CreateForm_save_invalid:
  "errors self \<noteq> [] \<Longrightarrow> CreateForm_save env commit self st = Inl ValueError"
  by (simp add: CreateForm_save_def CreateForm_super_save_def bind_def)

lemma UpdateForm_save_invalid:
  "errors self \<noteq> [] \<Longrightarrow> UpdateForm_save env commit self st = Inl ValueError"
  by (simp add: UpdateForm_save_def UpdateForm_super_save_def bind_def)

text \<open>When \<^verbatim>\<open>CreateForm.save\<close> returns, and what it has done by then.\<close>

lemma CreateForm_save_Inr:
  "CreateForm_save env commit self (calls, w) = Inr (obj, (calls', w')) \<longleftrightarrow>
     errors self = [] \<and>
     (\<exists>obj1 w1 repos_root w2 obj2 w3 obj3 w4 obj4 w5.
        sync_copr_texts env (CreateForm_assigned env self) w = Inr (obj1, w1) \<and>
        get_repos_root env obj1 w1 = Inr repos_root \<and>
        makedirs env repos_root w1 = Inr ((), w2) \<and>
        model_save env obj1 w2 = Inr (obj2, w3) \<and>
        sync_copr_repos env obj2 w3 = Inr (obj3, w4) \<and>
        add_auto_tags env obj3 w4 = Inr (obj4, w5) \<and>
        collaborators_add env obj4 (maintainer obj4) w5 = Inr (obj, w') \<and>
        calls' = calls @ [SyncCoprTexts, Makedirs repos_root, ModelSave, SyncCoprRepos,
                          AddAutoTags, CollaboratorsAdd (maintainer obj4)])"
  unfolding CreateForm_save_def
  by (simp add: bind_Inr invoke_Inr query_Inr CreateForm_super_save_False Let_def
        CreateForm_assigned_def CreateForm_construct_instance_def)
    auto

lemma UpdateForm_super_save_Inr:
  "UpdateForm_super_save env commit self (calls, w) = Inr (obj, (calls', w')) \<longleftrightarrow>
     errors self = [] \<and>
     (if commit
      then model_save env (UpdateForm_construct_instance self) w = Inr (obj, w') \<and>
           calls' = calls @ [ModelSave]
      else obj = UpdateForm_construct_instance self \<and> calls' = calls \<and> w' = w)"
  by (auto simp: UpdateForm_super_save_def invoke_Inr)

lemma UpdateForm_save_Inr:
  "UpdateForm_save env commit self (calls, w) = Inr (obj, (calls', w')) \<longleftrightarrow>
     errors self = [] \<and>
     (\<exists>obj1 w1 obj2 w2 obj3 w3.
        (if commit
         then model_save env (UpdateForm_construct_instance self) w = Inr (obj1, w1)
         else obj1 = UpdateForm_construct_instance self \<and> w1 = w) \<and>
        set_tags env obj1 (uc_tags (cleaned_data self)) w1 = Inr (obj2, w2) \<and>
        sync_copr_repos env obj2 w2 = Inr (obj3, w3) \<and>
        add_auto_tags env obj3 w3 = Inr (obj, w') \<and>
        calls' = calls @ (if commit then [ModelSave] else []) @
                   [SetTags (uc_tags (cleaned_data self)), SyncCoprRepos, AddAutoTags])"
  unfolding UpdateForm_save_def
  by (cases commit) (auto simp: bind_Inr invoke_Inr UpdateForm_super_save_Inr)

text \<open>
  Claim C4. \<^verbatim>\<open>CreateForm.save\<close> returns the instance \<open>obj\<close> exactly when the form has no
  errors and each of these, run in this order on the instance, returns: syncing the copr
  texts, making the directory that \<^verbatim>\<open>get_repos_root\<close> names, saving the instance,
  syncing the copr repos, adding the auto tags, and adding the instance's maintainer to
  its collaborators; these six calls, and no others, are then recorded.
  \<^verbatim>\<open>UpdateForm.save\<close> returns \<open>obj\<close> exactly when the form has no errors and the
  superclass save (which saves the instance if \<open>commit\<close> holds), the assignment of the
  cleaned tags, the sync of the copr repos and the adding of the auto tags return, in
  this order.
\<close>

theorem save_side_effects:
  "(CreateForm_save env commit self (calls, w) = Inr (obj, (calls', w')) \<longleftrightarrow>
     errors self = [] \<and>
     (\<exists>obj1 w1 repos_root w2 obj2 w3 obj3 w4 obj4 w5.
        sync_copr_texts env (CreateForm_assigned env self) w = Inr (obj1, w1) \<and>
        get_repos_root env obj1 w1 = Inr repos_root \<and>
        makedirs env repos_root w1 = Inr ((), w2) \<and>
        model_save env obj1 w2 = Inr (obj2, w3) \<and>
        sync_copr_repos env obj2 w3 = Inr (obj3, w4) \<and>
        add_auto_tags env obj3 w4 = Inr (obj4, w5) \<and>
        collaborators_add env obj4 (maintainer obj4) w5 = Inr (obj, w') \<and>
        calls' = calls @ [SyncCoprTexts, Makedirs repos_root, ModelSave, SyncCoprRepos,
                          AddAutoTags, CollaboratorsAdd (maintainer obj4)])) \<and>
   (UpdateForm_save env commit uself (calls, w) = Inr (obj, (calls', w')) \<longleftrightarrow>
     errors uself = [] \<and>
     (\<exists>obj1 w1 obj2 w2 obj3 w3.
        (if commit
         then model_save env (UpdateForm_construct_instance uself) w = Inr (obj1, w1)
         else obj1 = UpdateForm_construct_instance uself \<and> w1 = w) \<and>
        set_tags env obj1 (uc_tags (cleaned_data uself)) w1 = Inr (obj2, w2) \<and>
        sync_copr_repos env obj2 w2 = Inr (obj3, w3) \<and>
        add_auto_tags env obj3 w3 = Inr (obj, w') \<and>
        calls' = calls @ (if commit then [ModelSave] else []) @
                   [SetTags (uc_tags (cleaned_data uself)), SyncCoprRepos, AddAutoTags]))"
  using CreateForm_save_Inr [of env commit self calls w obj calls' w']
        UpdateForm_save_Inr [of env commit uself calls w obj calls' w']
  by blast

theorem save_side_effects_witness:
  "CreateForm_save example_env False example_create_form ([], []) =
     Inr (example_created,
          ([SyncCoprTexts, Makedirs ''/repos/alice/ruby193'', ModelSave, SyncCoprRepos,
            AddAutoTags, CollaboratorsAdd alice], [''/repos/alice/ruby193''])) \<and>
   UpdateForm_save example_env True example_update_form ([], []) =
     Inr (example_updated, ([ModelSave, SetTags ''ruby'', SyncCoprRepos, AddAutoTags], []))"
  using save_side_effects [of example_env False example_create_form "[]" "[]" example_created
          "[SyncCoprTexts, Makedirs ''/repos/alice/ruby193'', ModelSave, SyncCoprRepos,
            AddAutoTags, CollaboratorsAdd alice]" "[''/repos/alice/ruby193'']"]
        save_side_effects [of example_env True example_create_form "[]" "[]" example_updated
          "[ModelSave, SetTags ''ruby'', SyncCoprRepos, AddAutoTags]" "[]" example_update_form]
  by (simp add: example_defs CreateForm_assigned_def CreateForm_construct_instance_def
        UpdateForm_construct_instance_def)

lemma keeps_identityD:
  "keeps_identity m \<Longrightarrow> m obj w = Inr (obj', w') \<Longrightarrow>
   slug obj' = slug obj \<and> name obj' = name obj \<and> maintainer obj' = maintainer obj"
  unfolding keeps_identity_def by blast

lemma CreateForm_assigned_fields:
  "slug (CreateForm_assigned env self) =
     username (user (request self)) @ ''/'' @ cc_name (cleaned_data self)"
  "name (CreateForm_assigned env self) = cc_name (cleaned_data self)"
  "maintainer (CreateForm_assigned env self) = user (request self)"
  by (simp_all add: CreateForm_assigned_def CreateForm_construct_instance_def)

lemma CreateForm_save_identity:
  assumes keep: "methods_keep_identity env"
      and ret: "CreateForm_save env commit self (calls, w) = Inr (obj, (calls', w'))"
  shows "slug obj = slug (CreateForm_assigned env self) \<and>
         name obj = name (CreateForm_assigned env self) \<and>
         maintainer obj = maintainer (CreateForm_assigned env self)"
proof -
  from ret obtain obj1 w1 w2 obj2 w3 obj3 w4 obj4 w5 where
    s1: "sync_copr_texts env (CreateForm_assigned env self) w = Inr (obj1, w1)" and
    s2: "model_save env obj1 w2 = Inr (obj2, w3)" and
    s3: "sync_copr_repos env obj2 w3 = Inr (obj3, w4)" and
    s4: "add_auto_tags env obj3 w4 = Inr (obj4, w5)" and
    s5: "collaborators_add env obj4 (maintainer obj4) w5 = Inr (obj, w')"
    unfolding CreateForm_save_Inr by blast
  from keep have k: "keeps_identity (sync_copr_texts env)" "keeps_identity (model_save env)"
    "keeps_identity (sync_copr_repos env)" "keeps_identity (add_auto_tags env)"
    "keeps_identity (\<lambda>obj. collaborators_add env obj (maintainer obj4))"
    unfolding methods_keep_identity_def by blast+
  from keeps_identityD [OF k(1) s1] keeps_identityD [OF k(2) s2] keeps_identityD [OF k(3) s3]
       keeps_identityD [OF k(4) s4] keeps_identityD [OF k(5) s5]
  show ?thesis by simp
qed

text \<open>
  Claim C1. The instance that \<^verbatim>\<open>CreateForm.save\<close> returns has as slug its maintainer's
  username, a \<^verbatim>\<open>/\<close> and its name, in this order; its maintainer is the user of the
  request and its name the cleaned \<^verbatim>\<open>name\<close>. The model methods that \<^verbatim>\<open>save\<close> calls after
  the assignment are taken to keep these three fields (\<open>methods_keep_identity\<close>). By
  \<open>CreateForm_save_Inr\<close>, \<^verbatim>\<open>save\<close> returns for every form without errors on which those
  calls return.
\<close>

theorem CreateForm_save_slug:
  assumes "methods_keep_identity env"
      and "CreateForm_save env commit self st = Inr (obj, st')"
  shows "slug obj = username (maintainer obj) @ ''/'' @ name obj \<and>
         maintainer obj = user (request self) \<and>
         name obj = cc_name (cleaned_data self)"
  using CreateForm_save_identity [of env commit self "fst st" "snd st" obj "fst st'" "snd st'"]
    assms
  by (simp add: CreateForm_assigned_fields)

theorem CreateForm_save_slug_witness:
  "methods_keep_identity example_env \<and>
   CreateForm_save example_env True example_create_form ([], []) =
     Inr (example_created,
          ([SyncCoprTexts, Makedirs ''/repos/alice/ruby193'', ModelSave, SyncCoprRepos,
            AddAutoTags, CollaboratorsAdd alice], [''/repos/alice/ruby193''])) \<and>
   slug example_created = username (maintainer example_created) @ ''/'' @ name example_created \<and>
   slug example_created = ''alice/ruby193''"
proof -
  have keep: "methods_keep_identity example_env"
    by (auto simp: methods_keep_identity_def keeps_identity_def example_env_def)
  have run: "CreateForm_save example_env True example_create_form ([], []) =
     Inr (example_created,
          ([SyncCoprTexts, Makedirs ''/repos/alice/ruby193'', ModelSave, SyncCoprRepos,
            AddAutoTags, CollaboratorsAdd alice], [''/repos/alice/ruby193'']))"
    by (simp add: CreateForm_save_def CreateForm_super_save_def
          CreateForm_construct_instance_def bind_def invoke_def query_def Let_def example_defs)
  from CreateForm_save_slug [OF keep run] keep run show ?thesis
    by (simp add: example_created_def)
qed

lemma CreateForm_save_unfold:
  "errors self = [] \<Longrightarrow>
   CreateForm_save env commit self (calls, w) =
     bind (invoke SyncCoprTexts (sync_copr_texts env (CreateForm_assigned env self)) (calls, w))
       (\<lambda>obj st.
     bind (query (get_repos_root env obj) st) (\<lambda>repos_root st.
     bind (invoke (Makedirs repos_root) (makedirs env repos_root) st) (\<lambda>_ st.
     bind (invoke ModelSave (model_save env obj) st) (\<lambda>obj st.
     bind (invoke SyncCoprRepos (sync_copr_repos env obj) st) (\<lambda>obj st.
     bind (invoke AddAutoTags (add_auto_tags env obj) st) (\<lambda>obj st.
     bind (invoke (CollaboratorsAdd (maintainer obj))
             (collaborators_add env obj (maintainer obj)) st) (\<lambda>obj st.
     Inr (obj, st))))))))"
  by (simp add: CreateForm_save_def CreateForm_super_save_def bind_def Let_def
        CreateForm_assigned_def CreateForm_construct_instance_def)

text \<open>
  Claim C10. \<^verbatim>\<open>CreateForm.save\<close> does the same with \<^verbatim>\<open>commit=True\<close> and with
  \<^verbatim>\<open>commit=False\<close> (the same result, the same calls, the same world): the superclass
  save gets \<^verbatim>\<open>False\<close> either way. With either value, when \<^verbatim>\<open>save\<close> returns, \<^verbatim>\<open>obj.save()\<close>
  of line 63 has run and returned: it was applied, in the world left by the making of the
  directory, to the instance that \<^verbatim>\<open>sync_copr_texts\<close> returned, the calls after it start
  from the instance and the world it returned, and it is the only save among the calls
  made. And with either value, when that \<^verbatim>\<open>obj.save()\<close> raises, \<^verbatim>\<open>save\<close> raises the same
  exception: it never returns an instance that was not saved.
\<close>

theorem CreateForm_save_ignores_commit:
  "CreateForm_save env True self (calls, w) = CreateForm_save env False self (calls, w) \<and>
   (\<forall>commit obj calls' w'.
      CreateForm_save env commit self (calls, w) = Inr (obj, (calls', w')) \<longrightarrow>
      (\<exists>obj1 w1 repos_root w2 obj2 w3 obj3 w4 obj4 w5.
         sync_copr_texts env (CreateForm_assigned env self) w = Inr (obj1, w1) \<and>
         get_repos_root env obj1 w1 = Inr repos_root \<and>
         makedirs env repos_root w1 = Inr ((), w2) \<and>
         model_save env obj1 w2 = Inr (obj2, w3) \<and>
         sync_copr_repos env obj2 w3 = Inr (obj3, w4) \<and>
         add_auto_tags env obj3 w4 = Inr (obj4, w5) \<and>
         collaborators_add env obj4 (maintainer obj4) w5 = Inr (obj, w') \<and>
         filter (\<lambda>c. c = ModelSave) (drop (length calls) calls') = [ModelSave])) \<and>
   (\<forall>commit obj1 w1 repos_root w2 e.
      errors self = [] \<and>
      sync_copr_texts env (CreateForm_assigned env self) w = Inr (obj1, w1) \<and>
      get_repos_root env obj1 w1 = Inr repos_root \<and>
      makedirs env repos_root w1 = Inr ((), w2) \<and>
      model_save env obj1 w2 = Inl e \<longrightarrow>
      CreateForm_save env commit self (calls, w) = Inl e)"
proof (intro conjI allI impI)
  show "CreateForm_save env True self (calls, w) = CreateForm_save env False self (calls, w)"
    by (simp add: CreateForm_save_def)
next
  fix commit obj calls' w'
  assume "CreateForm_save env commit self (calls, w) = Inr (obj, (calls', w'))"
  then obtain obj1 w1 repos_root w2 obj2 w3 obj3 w4 obj4 w5 where
    chain: "sync_copr_texts env (CreateForm_assigned env self) w = Inr (obj1, w1)"
      "get_repos_root env obj1 w1 = Inr repos_root"
      "makedirs env repos_root w1 = Inr ((), w2)"
      "model_save env obj1 w2 = Inr (obj2, w3)"
      "sync_copr_repos env obj2 w3 = Inr (obj3, w4)"
      "add_auto_tags env obj3 w4 = Inr (obj4, w5)"
      "collaborators_add env obj4 (maintainer obj4) w5 = Inr (obj, w')" and
    calls': "calls' = calls @ [SyncCoprTexts, Makedirs repos_root, ModelSave, SyncCoprRepos,
                          AddAutoTags, CollaboratorsAdd (maintainer obj4)]"
    unfolding CreateForm_save_Inr by blast
  from calls' have "filter (\<lambda>c. c = ModelSave) (drop (length calls) calls') = [ModelSave]"
    by simp
  with chain
  show "\<exists>obj1 w1 repos_root w2 obj2 w3 obj3 w4 obj4 w5.
         sync_copr_texts env (CreateForm_assigned env self) w = Inr (obj1, w1) \<and>
         get_repos_root env obj1 w1 = Inr repos_root \<and>
         makedirs env repos_root w1 = Inr ((), w2) \<and>
         model_save env obj1 w2 = Inr (obj2, w3) \<and>
         sync_copr_repos env obj2 w3 = Inr (obj3, w4) \<and>
         add_auto_tags env obj3 w4 = Inr (obj4, w5) \<and>
         collaborators_add env obj4 (maintainer obj4) w5 = Inr (obj, w') \<and>
         filter (\<lambda>c. c = ModelSave) (drop (length calls) calls') = [ModelSave]"
    by blast
next
  fix commit obj1 w1 repos_root w2 e
  assume "errors self = [] \<and>
      sync_copr_texts env (CreateForm_assigned env self) w = Inr (obj1, w1) \<and>
      get_repos_root env obj1 w1 = Inr repos_root \<and>
      makedirs env repos_root w1 = Inr ((), w2) \<and>
      model_save env obj1 w2 = Inl e"
  then show "CreateForm_save env commit self (calls, w) = Inl e"
    by (simp add: CreateForm_save_unfold bind_def invoke_def query_def)
qed

theorem CreateForm_save_ignores_commit_witness:
  "CreateForm_save example_env True example_create_form ([], []) =
     CreateForm_save example_env False example_create_form ([], []) \<and>
   CreateForm_save example_env False example_create_form ([], []) =
     Inr (example_created,
          ([SyncCoprTexts, Makedirs ''/repos/alice/ruby193'', ModelSave, SyncCoprRepos,
            AddAutoTags, CollaboratorsAdd alice], [''/repos/alice/ruby193''])) \<and>
   (\<exists>obj1 w2 obj2 w3.
      model_save example_env obj1 w2 = Inr (obj2, w3) \<and>
      sync_copr_repos example_env obj2 w3 = Inr (example_created, [''/repos/alice/ruby193''])) \<and>
   CreateForm_save (example_env\<lparr>model_save := \<lambda>obj w. Inl DatabaseError\<rparr>)
     True example_create_form ([], []) = Inl DatabaseError \<and>
   CreateForm_save (example_env\<lparr>model_save := \<lambda>obj w. Inl DatabaseError\<rparr>)
     False example_create_form ([], []) = Inl DatabaseError"
proof -
  let ?calls = "[SyncCoprTexts, Makedirs ''/repos/alice/ruby193'', ModelSave, SyncCoprRepos,
            AddAutoTags, CollaboratorsAdd alice]"
  let ?failing = "example_env\<lparr>model_save := \<lambda>obj w. Inl DatabaseError\<rparr>"
  have run: "CreateForm_save example_env False example_create_form ([], []) =
     Inr (example_created, (?calls, [''/repos/alice/ruby193'']))"
    by (simp add: CreateForm_save_def CreateForm_super_save_def
          CreateForm_construct_instance_def bind_def invoke_def query_def Let_def example_defs)
  note inst = CreateForm_save_ignores_commit [of example_env example_create_form "[]" "[]"]
  from inst have same: "CreateForm_save example_env True example_create_form ([], []) =
     CreateForm_save example_env False example_create_form ([], [])"
    by blast
  from inst run
  have "\<exists>obj1 w1 repos_root w2 obj2 w3 obj3 w4 obj4 w5.
         sync_copr_texts example_env (CreateForm_assigned example_env example_create_form) [] =
           Inr (obj1, w1) \<and>
         get_repos_root example_env obj1 w1 = Inr repos_root \<and>
         makedirs example_env repos_root w1 = Inr ((), w2) \<and>
         model_save example_env obj1 w2 = Inr (obj2, w3) \<and>
         sync_copr_repos example_env obj2 w3 = Inr (obj3, w4) \<and>
         add_auto_tags example_env obj3 w4 = Inr (obj4, w5) \<and>
         collaborators_add example_env obj4 (maintainer obj4) w5 =
           Inr (example_created, [''/repos/alice/ruby193'']) \<and>
         filter (\<lambda>c. c = ModelSave) (drop (length ([] :: call list)) ?calls) = [ModelSave]"
    by blast
  then have saved: "\<exists>obj1 w2 obj2 w3.
      model_save example_env obj1 w2 = Inr (obj2, w3) \<and>
      sync_copr_repos example_env obj2 w3 = Inr (example_created, [''/repos/alice/ruby193''])"
    by (auto simp: example_env_def)
  have failing: "CreateForm_save ?failing commit example_create_form ([], []) =
      Inl DatabaseError" for commit
    using CreateForm_save_ignores_commit [of ?failing example_create_form "[]" "[]"]
    by (simp add: example_defs CreateForm_assigned_def CreateForm_construct_instance_def)
  from same run saved failing [of True] failing [of False] show ?thesis
    by blast
qed

section \<open>Properties of the constructors\<close>

text \<open>
  Claim C9. When the \<^verbatim>\<open>copr_username\<close> that \<^verbatim>\<open>CreateForm.__init__\<close> resolves is empty,
  the constructor returns without any call recorded and with the world as it was (so
  \<^verbatim>\<open>CoprProxy().coprnames\<close> was not called), and the choices of \<^verbatim>\<open>copr_name\<close> are empty.
  When it is not empty, \<^verbatim>\<open>coprnames\<close> is called with it: its exception is the
  constructor's, and when it returns names, that one call is recorded and the choices
  are the pairs of the names.
\<close>

theorem CreateForm_init_lookup:
  "(CreateForm_copr_username env req w = [] \<longrightarrow>
      (\<exists>self. CreateForm_init env req self0 (calls, w) = Inr (self, (calls, w)) \<and>
         widget_choices self ''copr_name'' = [])) \<and>
   (CreateForm_copr_username env req w \<noteq> [] \<longrightarrow>
      (\<forall>e. coprnames env (CreateForm_copr_username env req w) w = Inl e \<longrightarrow>
         CreateForm_init env req self0 (calls, w) = Inl e) \<and>
      (\<forall>names w'. coprnames env (CreateForm_copr_username env req w) w = Inr (names, w') \<longrightarrow>
         (\<exists>self. CreateForm_init env req self0 (calls, w) =
                   Inr (self, (calls @ [Coprnames (CreateForm_copr_username env req w)], w')) \<and>
            widget_choices self ''copr_name'' = map (\<lambda>name. (name, name)) names)))"
  by (simp add: CreateForm_init_def Let_def bind_def invoke_def)

theorem CreateForm_init_lookup_witness:
  "CreateForm_copr_username example_env
     (example_request\<lparr>REQUEST := [''copr_username'' \<mapsto> []]\<rparr>) [] = [] \<and>
   (\<exists>self. CreateForm_init example_env (example_request\<lparr>REQUEST := [''copr_username'' \<mapsto> []]\<rparr>)
              example_create_form ([], []) = Inr (self, ([], [])) \<and>
      widget_choices self ''copr_name'' = []) \<and>
   CreateForm_copr_username example_env example_request [] = ''alice'' \<and>
   (\<exists>self. CreateForm_init example_env example_request example_create_form ([], []) =
              Inr (self, ([Coprnames ''alice''], [])) \<and>
      widget_choices self ''copr_name'' =
        [(''ruby193'', ''ruby193''), (''python33'', ''python33'')])"
proof -
  let ?req = "example_request\<lparr>REQUEST := [''copr_username'' \<mapsto> []]\<rparr>"
  have e: "CreateForm_copr_username example_env ?req [] = []"
    by (simp add: CreateForm_copr_username_def example_request_def)
  have a: "CreateForm_copr_username example_env example_request [] = ''alice''"
    by (simp add: CreateForm_copr_username_def example_request_def example_env_def
          get_username_def alice_def)
  have c: "coprnames example_env ''alice'' [] = Inr ([''ruby193'', ''python33''], [])"
    by (simp add: example_env_def)
  from CreateForm_init_lookup [of example_env ?req "[]" example_create_form "[]"] e
  have 1: "\<exists>self. CreateForm_init example_env ?req example_create_form ([], []) =
              Inr (self, ([], [])) \<and> widget_choices self ''copr_name'' = []"
    by blast
  from CreateForm_init_lookup [of example_env example_request "[]" example_create_form "[]"] a c
  have 2: "\<exists>self. CreateForm_init example_env example_request example_create_form ([], []) =
              Inr (self, ([Coprnames ''alice''], [])) \<and>
      widget_choices self ''copr_name'' =
        [(''ruby193'', ''ruby193''), (''python33'', ''python33'')]"
    by simp
  from e 1 a 2 show ?thesis by blast
qed

section \<open>Exceptions of the calls that leave \<^verbatim>\<open>forms.py\<close>\<close>

lemma UpdateForm_init_coprnames_fails:
  assumes "coprnames env (case REQUEST req ''copr_username'' of
                     Some v \<Rightarrow> v | None \<Rightarrow> copr_username (form_instance self0)) w = Inl e"
  shows "UpdateForm_init env req self0 (calls, w) = Inl e"
  using assms
  by (cases "REQUEST req ''copr_username''")
     (simp_all add: UpdateForm_init_def Let_def bind_def invoke_def)

lemma CreateForm_init_coprnames_fails:
  assumes "CreateForm_copr_username env req w \<noteq> []"
      and "coprnames env (CreateForm_copr_username env req w) w = Inl e"
  shows "CreateForm_init env req self0 (calls, w) = Inl e"
  using assms by (simp add: CreateForm_init_def Let_def bind_def invoke_def)

text \<open>
  Claim C7. An exception \<open>e\<close> of a call to the build service, or of the making of the
  directory, comes out of the form method that made the call: \<^verbatim>\<open>UpdateForm.__init__\<close>
  and \<^verbatim>\<open>CreateForm.__init__\<close> raise the \<open>e\<close> of \<^verbatim>\<open>CoprProxy().coprnames\<close>, and
  \<^verbatim>\<open>CreateForm.save\<close>, on a form without errors, raises the \<open>e\<close> of \<^verbatim>\<open>sync_copr_texts\<close>,
  of \<^verbatim>\<open>os.makedirs\<close> and of \<^verbatim>\<open>sync_copr_repos\<close> (each reached when the calls before it
  returned). The one \<^verbatim>\<open>try\<close> of the two constructors, in \<^verbatim>\<open>CreateForm.__init__\<close>, is
  around the database query for the user's latest collection, not around any of these.
\<close>

theorem external_failures_propagate:
  "(coprnames env (case REQUEST req ''copr_username'' of
                     Some v \<Rightarrow> v | None \<Rightarrow> copr_username (form_instance self0)) w = Inl e \<longrightarrow>
      UpdateForm_init env req self0 (calls, w) = Inl e) \<and>
   (CreateForm_copr_username env req w \<noteq> [] \<and>
    coprnames env (CreateForm_copr_username env req w) w = Inl e \<longrightarrow>
      CreateForm_init env req cself0 (calls, w) = Inl e) \<and>
   (errors self = [] \<longrightarrow>
      (sync_copr_texts env (CreateForm_assigned env self) w = Inl e \<longrightarrow>
         CreateForm_save env commit self (calls, w) = Inl e) \<and>
      (\<forall>obj1 w1 repos_root.
         sync_copr_texts env (CreateForm_assigned env self) w = Inr (obj1, w1) \<and>
         get_repos_root env obj1 w1 = Inr repos_root \<and>
         makedirs env repos_root w1 = Inl e \<longrightarrow>
         CreateForm_save env commit self (calls, w) = Inl e) \<and>
      (\<forall>obj1 w1 repos_root w2 obj2 w3.
         sync_copr_texts env (CreateForm_assigned env self) w = Inr (obj1, w1) \<and>
         get_repos_root env obj1 w1 = Inr repos_root \<and>
         makedirs env repos_root w1 = Inr ((), w2) \<and>
         model_save env obj1 w2 = Inr (obj2, w3) \<and>
         sync_copr_repos env obj2 w3 = Inl e \<longrightarrow>
         CreateForm_save env commit self (calls, w) = Inl e))"
proof (intro conjI impI allI)
  assume "coprnames env (case REQUEST req ''copr_username'' of
                     Some v \<Rightarrow> v | None \<Rightarrow> copr_username (form_instance self0)) w = Inl e"
  then show "UpdateForm_init env req self0 (calls, w) = Inl e"
    by (rule UpdateForm_init_coprnames_fails)
next
  assume "CreateForm_copr_username env req w \<noteq> [] \<and>
    coprnames env (CreateForm_copr_username env req w) w = Inl e"
  then show "CreateForm_init env req cself0 (calls, w) = Inl e"
    by (simp add: CreateForm_init_coprnames_fails)
next
  assume "errors self = []"
     and "sync_copr_texts env (CreateForm_assigned env self) w = Inl e"
  then show "CreateForm_save env commit self (calls, w) = Inl e"
    by (simp add: CreateForm_save_unfold bind_def invoke_def)
next
  fix obj1 w1 repos_root
  assume "errors self = []"
     and "sync_copr_texts env (CreateForm_assigned env self) w = Inr (obj1, w1) \<and>
         get_repos_root env obj1 w1 = Inr repos_root \<and>
         makedirs env repos_root w1 = Inl e"
  then show "CreateForm_save env commit self (calls, w) = Inl e"
    by (simp add: CreateForm_save_unfold bind_def invoke_def query_def)
next
  fix obj1 w1 repos_root w2 obj2 w3
  assume "errors self = []"
     and "sync_copr_texts env (CreateForm_assigned env self) w = Inr (obj1, w1) \<and>
         get_repos_root env obj1 w1 = Inr repos_root \<and>
         makedirs env repos_root w1 = Inr ((), w2) \<and>
         model_save env obj1 w2 = Inr (obj2, w3) \<and>
         sync_copr_repos env obj2 w3 = Inl e"
  then show "CreateForm_save env commit self (calls, w) = Inl e"
    by (simp add: CreateForm_save_unfold bind_def invoke_def query_def)
qed

theorem external_failures_propagate_witness:
  "UpdateForm_init example_env (example_request\<lparr>REQUEST := [''copr_username'' \<mapsto> ''mallory'']\<rparr>)
     example_update_form ([], []) = Inl (Raised ''copr: no such user'') \<and>
   CreateForm_init example_env (example_request\<lparr>REQUEST := [''copr_username'' \<mapsto> ''mallory'']\<rparr>)
     example_create_form ([], []) = Inl (Raised ''copr: no such user'') \<and>
   CreateForm_save (example_env\<lparr>sync_copr_texts := \<lambda>obj w. Inl (Raised ''copr: timeout'')\<rparr>)
     True example_create_form ([], []) = Inl (Raised ''copr: timeout'') \<and>
   CreateForm_save example_env True example_create_form ([], [''/repos/alice/ruby193'']) =
     Inl (Raised ''OSError: file exists'') \<and>
   CreateForm_save (example_env\<lparr>sync_copr_repos := \<lambda>obj w. Inl (Raised ''copr: timeout'')\<rparr>)
     True example_create_form ([], []) = Inl (Raised ''copr: timeout'')"
proof (intro conjI)
  show "UpdateForm_init example_env (example_request\<lparr>REQUEST := [''copr_username'' \<mapsto> ''mallory'']\<rparr>)
     example_update_form ([], []) = Inl (Raised ''copr: no such user'')"
    using external_failures_propagate
      [where env = example_env
         and req = "example_request\<lparr>REQUEST := [''copr_username'' \<mapsto> ''mallory'']\<rparr>"
         and ?self0.0 = example_update_form and w = "[]" and calls = "[]"
         and e = "Raised ''copr: no such user''"]
    by (simp add: example_env_def example_request_def)
next
  show "CreateForm_init example_env (example_request\<lparr>REQUEST := [''copr_username'' \<mapsto> ''mallory'']\<rparr>)
     example_create_form ([], []) = Inl (Raised ''copr: no such user'')"
    using external_failures_propagate
      [where env = example_env
         and req = "example_request\<lparr>REQUEST := [''copr_username'' \<mapsto> ''mallory'']\<rparr>"
         and ?cself0.0 = example_create_form and w = "[]" and calls = "[]"
         and e = "Raised ''copr: no such user''"]
    by (simp add: example_env_def example_request_def CreateForm_copr_username_def)
next
  show "CreateForm_save (example_env\<lparr>sync_copr_texts := \<lambda>obj w. Inl (Raised ''copr: timeout'')\<rparr>)
     True example_create_form ([], []) = Inl (Raised ''copr: timeout'')"
    using external_failures_propagate
      [where env = "example_env\<lparr>sync_copr_texts := \<lambda>obj w. Inl (Raised ''copr: timeout'')\<rparr>"
         and self = example_create_form and w = "[]" and calls = "[]" and commit = True
         and e = "Raised ''copr: timeout''"]
    by (simp add: example_create_form_def)
next
  show "CreateForm_save example_env True example_create_form ([], [''/repos/alice/ruby193'']) =
     Inl (Raised ''OSError: file exists'')"
    using external_failures_propagate
      [where env = example_env
         and self = example_create_form and w = "[''/repos/alice/ruby193'']" and calls = "[]"
         and commit = True and e = "Raised ''OSError: file exists''"]
    by (simp add: example_defs CreateForm_assigned_def CreateForm_construct_instance_def)
next
  show "CreateForm_save (example_env\<lparr>sync_copr_repos := \<lambda>obj w. Inl (Raised ''copr: timeout'')\<rparr>)
     True example_create_form ([], []) = Inl (Raised ''copr: timeout'')"
    using external_failures_propagate
      [where env = "example_env\<lparr>sync_copr_repos := \<lambda>obj w. Inl (Raised ''copr: timeout'')\<rparr>"
         and self = example_create_form and w = "[]" and calls = "[]" and commit = True
         and e = "Raised ''copr: timeout''"]
    by (simp add: example_defs CreateForm_assigned_def CreateForm_construct_instance_def)
qed

section \<open>Properties of the migration and of the declared fields\<close>

lemma filter_key_absent:
  "k \<notin> set (map fst xs) \<Longrightarrow> filter (\<lambda>c. fst c \<noteq> k) xs = xs"
  by (induction xs) auto

lemma rows_without_key:
  "\<forall>r \<in> set rs. k \<notin> set (map fst r) \<Longrightarrow> map (filter (\<lambda>v. fst v \<noteq> k)) rs = rs"
  by (induction rs) (simp_all add: filter_key_absent)

lemma forwards_Inr:
  assumes "db ''scls_repo'' = Some t" and "''slug'' \<notin> set (map fst (columns t))"
  shows "forwards orm db =
           Inr (db(''scls_repo'' \<mapsto>
             t\<lparr>columns := columns t @
                  [(''slug'', \<lparr>col_type = ''django.db.models.fields.SlugField'',
                              col_max_length = Some 150, col_default = None\<rparr>)],
               rows := map (\<lambda>r. r @ [(''slug'', Some [])]) (rows t)\<rparr>))"
  using assms by (simp add: forwards_def add_column_def gf_def)

lemma backwards_forwards_Inr:
  assumes "db ''scls_repo'' = Some t" and "''slug'' \<notin> set (map fst (columns t))"
      and "forwards orm db = Inr db1"
  shows "backwards orm' db1 =
           Inr (db(''scls_repo'' \<mapsto>
             t\<lparr>rows := map (\<lambda>r. filter (\<lambda>v. fst v \<noteq> ''slug'') r) (rows t)\<rparr>))"
proof -
  from assms have db1: "db1 = db(''scls_repo'' \<mapsto>
             t\<lparr>columns := columns t @
                  [(''slug'', \<lparr>col_type = ''django.db.models.fields.SlugField'',
                              col_max_length = Some 150, col_default = None\<rparr>)],
               rows := map (\<lambda>r. r @ [(''slug'', Some [])]) (rows t)\<rparr>)"
    by (simp add: forwards_Inr)
  show ?thesis
    using assms(2)
    by (simp add: db1 backwards_def delete_column_def filter_key_absent comp_def)
qed

text \<open>
  The migration fails on a database that has no table \<^verbatim>\<open>scls_repo\<close>, and forwards fails
  on a table that has the column.
\<close>

lemma forwards_refused:
  "db ''scls_repo'' = None \<Longrightarrow> forwards orm db = Inl DatabaseError"
  "db ''scls_repo'' = Some t \<Longrightarrow> ''slug'' \<in> set (map fst (columns t)) \<Longrightarrow>
   forwards orm db = Inl DatabaseError"
  by (simp_all add: forwards_def add_column_def)

text \<open>
  Claim C3. On a database whose table \<^verbatim>\<open>scls_repo\<close> has no column \<^verbatim>\<open>slug\<close>, forwards
  returns a database whose schema differs in exactly that one column, added last to
  \<^verbatim>\<open>scls_repo\<close>; backwards then returns a database with the schema of the start; and it
  is the very database of the start, rows included, when no row of the table held a
  value under \<^verbatim>\<open>slug\<close>.
\<close>

theorem forwards_backwards_inverse:
  assumes "db ''scls_repo'' = Some t" and "''slug'' \<notin> set (map fst (columns t))"
  shows "\<exists>db1 db2 c.
           forwards orm db = Inr db1 \<and>
           schema db1 = (schema db)(''scls_repo'' \<mapsto> columns t @ [(''slug'', c)]) \<and>
           backwards orm db1 = Inr db2 \<and>
           schema db2 = schema db \<and>
           ((\<forall>r \<in> set (rows t). ''slug'' \<notin> set (map fst r)) \<longrightarrow> db2 = db)"
proof -
  let ?c = "\<lparr>col_type = ''django.db.models.fields.SlugField'',
             col_max_length = Some 150, col_default = None\<rparr>"
  let ?db1 = "db(''scls_repo'' \<mapsto>
             t\<lparr>columns := columns t @ [(''slug'', ?c)],
               rows := map (\<lambda>r. r @ [(''slug'', Some [])]) (rows t)\<rparr>)"
  let ?db2 = "db(''scls_repo'' \<mapsto>
             t\<lparr>rows := map (\<lambda>r. filter (\<lambda>v. fst v \<noteq> ''slug'') r) (rows t)\<rparr>)"
  have f: "forwards orm db = Inr ?db1"
    using assms by (rule forwards_Inr)
  have b: "backwards orm ?db1 = Inr ?db2"
    using assms f by (rule backwards_forwards_Inr)
  have s1: "schema ?db1 = (schema db)(''scls_repo'' \<mapsto> columns t @ [(''slug'', ?c)])"
    by (auto simp: schema_def)
  have s2: "schema ?db2 = schema db"
    using assms(1) by (auto simp: schema_def)
  have e: "(\<forall>r \<in> set (rows t). ''slug'' \<notin> set (map fst r)) \<longrightarrow> ?db2 = db"
  proof
    assume "\<forall>r \<in> set (rows t). ''slug'' \<notin> set (map fst r)"
    then have "map (filter (\<lambda>v. fst v \<noteq> ''slug'')) (rows t) = rows t"
      by (rule rows_without_key)
    with assms(1) show "?db2 = db"
      by (auto simp: fun_eq_iff)
  qed
  from f s1 b s2 e show ?thesis by blast
qed

theorem forwards_backwards_inverse_witness:
  "\<exists>db1 db2 c.
     forwards () example_db = Inr db1 \<and>
     schema db1 = (schema example_db)(''scls_repo'' \<mapsto> columns example_repo_table @ [(''slug'', c)]) \<and>
     backwards () db1 = Inr db2 \<and> schema db2 = schema example_db \<and> db2 = example_db"
  using forwards_backwards_inverse [of example_db example_repo_table "()"]
  by (simp add: example_db_def example_repo_table_def)

text \<open>
  Claim C6. The fields of \<^verbatim>\<open>CreateForm\<close> are the five names of its \<^verbatim>\<open>Meta.fields\<close>, each a
  field of the frozen model \<^verbatim>\<open>scls.softwarecollection\<close>; the fields of \<^verbatim>\<open>UpdateForm\<close> are
  the seven names of its \<^verbatim>\<open>Meta.fields\<close>, each a field of that model, and then \<^verbatim>\<open>tags\<close>,
  which is not one. On a database whose table \<^verbatim>\<open>scls_repo\<close> has no column \<^verbatim>\<open>slug\<close>,
  forwards adds to that table, last, a column \<^verbatim>\<open>slug\<close> made from a \<^verbatim>\<open>SlugField\<close> of
  \<^verbatim>\<open>max_length\<close> 150 for which the schema holds no default, and gives every row that
  exists the value \<^verbatim>\<open>''\<close> in it; nothing else changes.
\<close>

theorem declared_contracts:
  "CreateForm_fields = [''copr_username'', ''copr_name'', ''maintainer'', ''name'', ''policy''] \<and>
   list_all (\<lambda>f. f \<in> set (frozen_fields ''scls.softwarecollection'')) CreateForm_fields \<and>
   UpdateForm_fields =
     [''title'', ''description'', ''instructions'', ''policy'', ''copr_username'',
      ''copr_name'', ''auto_sync'', ''tags''] \<and>
   list_all (\<lambda>f. f \<in> set (frozen_fields ''scls.softwarecollection'')) UpdateForm_Meta_fields \<and>
   ''tags'' \<notin> set (frozen_fields ''scls.softwarecollection'') \<and>
   (\<forall>db t. db ''scls_repo'' = Some t \<and> ''slug'' \<notin> set (map fst (columns t)) \<longrightarrow>
      forwards orm db =
        Inr (db(''scls_repo'' \<mapsto>
          t\<lparr>columns := columns t @
               [(''slug'', \<lparr>col_type = ''django.db.models.fields.SlugField'',
                           col_max_length = Some 150, col_default = None\<rparr>)],
            rows := map (\<lambda>r. r @ [(''slug'', Some [])]) (rows t)\<rparr>)))"
proof (intro conjI allI impI)
  show "CreateForm_fields = [''copr_username'', ''copr_name'', ''maintainer'', ''name'', ''policy'']"
    by (simp add: CreateForm_fields_def form_fields_def CreateForm_Meta_fields_def)
  show "list_all (\<lambda>f. f \<in> set (frozen_fields ''scls.softwarecollection'')) CreateForm_fields"
    by (simp add: CreateForm_fields_def form_fields_def CreateForm_Meta_fields_def
          frozen_fields_def models_def is_field_def)
  show "UpdateForm_fields =
     [''title'', ''description'', ''instructions'', ''policy'', ''copr_username'',
      ''copr_name'', ''auto_sync'', ''tags'']"
    by (simp add: UpdateForm_fields_def form_fields_def UpdateForm_Meta_fields_def
          UpdateForm_declared_fields_def)
  show "list_all (\<lambda>f. f \<in> set (frozen_fields ''scls.softwarecollection'')) UpdateForm_Meta_fields"
    by (simp add: UpdateForm_Meta_fields_def frozen_fields_def models_def is_field_def)
  show "''tags'' \<notin> set (frozen_fields ''scls.softwarecollection'')"
    by (simp add: frozen_fields_def models_def is_field_def)
next
  fix db :: database and t
  assume "db ''scls_repo'' = Some t \<and> ''slug'' \<notin> set (map fst (columns t))"
  then show "forwards orm db =
        Inr (db(''scls_repo'' \<mapsto>
          t\<lparr>columns := columns t @
               [(''slug'', \<lparr>col_type = ''django.db.models.fields.SlugField'',
                           col_max_length = Some 150, col_default = None\<rparr>)],
            rows := map (\<lambda>r. r @ [(''slug'', Some [])]) (rows t)\<rparr>))"
    by (simp add: forwards_Inr)
qed

theorem declared_contracts_witness:
  "forwards () example_db =
     Inr [''scls_repo'' \<mapsto>
        \<lparr>columns =
           [(''id'', \<lparr>col_type = ''django.db.models.fields.AutoField'', col_max_length = None,
                      col_default = None\<rparr>),
            (''name'', \<lparr>col_type = ''django.db.models.fields.CharField'',
                        col_max_length = Some 50, col_default = None\<rparr>),
            (''slug'', \<lparr>col_type = ''django.db.models.fields.SlugField'',
                        col_max_length = Some 150, col_default = None\<rparr>)],
         rows = [[(''id'', Some ''1''), (''name'', Some ''epel-6-x86_64''), (''slug'', Some [])],
                 [(''id'', Some ''2''), (''name'', Some ''fedora-19-x86_64''), (''slug'', Some [])]]\<rparr>]"
  using declared_contracts [of "()", THEN conjunct2, THEN conjunct2, THEN conjunct2,
      THEN conjunct2, THEN conjunct2, THEN spec, THEN spec, of example_db example_repo_table]
  by (simp add: example_db_def example_repo_table_def)

text \<open>
  What the frozen models declare: the \<^verbatim>\<open>unique_together\<close> of the three models of the
  application, the defaults of their counters and flags, the frozen \<^verbatim>\<open>Repo.slug\<close> (its
  length is that of the column added, and it has no default), and the uniqueness of
  \<^verbatim>\<open>username\<close>. Holding the rows of the database to these declarations is the work of
  the framework and of the database, outside the two sources.
\<close>

lemma frozen_declarations:
  "frozen_option ''scls.softwarecollection'' ''Meta'' ''unique_together'' =
     Some ''(('maintainer', 'name'),)''"
  "frozen_option ''scls.score'' ''Meta'' ''unique_together'' = Some ''(('scl', 'user'),)''"
  "frozen_option ''scls.repo'' ''Meta'' ''unique_together'' = Some ''(('scl', 'name'),)''"
  "frozen_option ''scls.softwarecollection'' ''download_count'' ''default'' = Some ''0''"
  "frozen_option ''scls.softwarecollection'' ''auto_sync'' ''default'' = Some ''True''"
  "frozen_option ''scls.softwarecollection'' ''need_sync'' ''default'' = Some ''True''"
  "frozen_option ''scls.softwarecollection'' ''approved'' ''default'' = Some ''False''"
  "frozen_option ''scls.repo'' ''download_count'' ''default'' = Some ''0''"
  "frozen_option ''scls.repo'' ''auto_sync'' ''default'' = Some ''True''"
  "frozen_option ''scls.repo'' ''need_sync'' ''default'' = Some ''True''"
  "frozen_option ''scls.repo'' ''enabled'' ''default'' = Some ''True''"
  "frozen_option ''scls.repo'' ''slug'' ''max_length'' = Some ''150''"
  "frozen_option ''scls.repo'' ''slug'' ''default'' = None"
  "frozen_option ''auth.user'' ''username'' ''unique'' = Some ''True''"
  by (simp_all add: frozen_option_def models_def)

end
